theory Spec2Isabelle
  imports Main "HOL-Library.Sublist"
begin

section \<open>Strings of the Go library\<close>

text \<open>
  A Go string is a sequence of bytes; \<^typ>\<open>string\<close> is a list of 8-bit characters, so
  \<^const>\<open>length\<close> is Go's \<open>len\<close>.
\<close>

text \<open>\<open>strings.Contains(s, substr)\<close>: \<open>substr\<close> occurs in \<open>s\<close> at some position.\<close>

fun strings_Contains :: "string \<Rightarrow> string \<Rightarrow> bool" where
  "strings_Contains [] substr = (substr = [])"
| "strings_Contains (c # s) substr = (prefix substr (c # s) \<or> strings_Contains s substr)"

section \<open>The error classifier\<close>

text \<open>
  What \<open>encoding/json\<close> stores in an \<open>interface{}\<close>: \<open>nil\<close>, \<open>bool\<close>, \<open>float64\<close>,
  \<open>string\<close>, \<open>[]interface{}\<close> and \<open>map[string]interface{}\<close>. A Go map holds each key
  once; it is an association list read with \<^const>\<open>map_of\<close>. The value of a number is never
  looked at by the program; it is kept as the text of the literal.
\<close>

datatype json =
    JNull
  | JBool bool
  | JNumber string
  | JString string
  | JArray "json list"
  | JObject "(string \<times> json) list"

text \<open>
  \<open>json.Unmarshal([]byte(stderr), &parsedError)\<close> with
  \<open>parsedError map[string]interface{}\<close> is a function of the text: \<open>None\<close> when it returns an
  error, the map otherwise. The decoder belongs to the Go library and is a parameter of the
  model.
\<close>

type_synonym unmarshal = "string \<Rightarrow> (string \<times> json) list option"

definition FAILED_PRECONDITION :: string where
  "FAILED_PRECONDITION = ''FAILED_PRECONDITION''"

definition precondition_message :: string where
  "precondition_message = ''FAILED_PRECONDITION - Continuing without interrupting the process''"

definition unauthorized_message :: string where
  "unauthorized_message = ''Unauthorized - the client must authenticate itself''"

text \<open>The type assertions \<open>x.(string)\<close> and \<open>x.(map[string]interface{})\<close> on a map entry.\<close>

fun as_string :: "json option \<Rightarrow> string option" where
  "as_string (Some (JString s)) = Some s"
| "as_string _ = None"

fun as_object :: "json option \<Rightarrow> (string \<times> json) list option" where
  "as_object (Some (JObject m)) = Some m"
| "as_object _ = None"

text \<open>The tail of \<open>parseError\<close>, reached when no branch of the structured part returns.\<close>

definition parseError_raw :: "string \<Rightarrow> string" where
  "parseError_raw stderr =
     (if strings_Contains stderr unauthorized_message then unauthorized_message else stderr)"

definition parseError :: "unmarshal \<Rightarrow> string \<Rightarrow> string" where
  "parseError json_Unmarshal stderr =
     (case json_Unmarshal stderr of
        None \<Rightarrow> parseError_raw stderr
      | Some parsedError \<Rightarrow>
          (case as_object (map_of parsedError ''error'') of
             None \<Rightarrow> parseError_raw stderr
           | Some errorInfo \<Rightarrow>
               (case as_string (map_of errorInfo ''status'') of
                  Some status \<Rightarrow>
                    if status = FAILED_PRECONDITION then precondition_message
                    else (case as_string (map_of errorInfo ''message'') of
                            Some message \<Rightarrow> message
                          | None \<Rightarrow> parseError_raw stderr)
                | None \<Rightarrow>
                    (case as_string (map_of errorInfo ''message'') of
                       Some message \<Rightarrow> message
                     | None \<Rightarrow> parseError_raw stderr))))"

text \<open>
  The words of the specification: the structured error object of a text, its status field and
  its message field.
\<close>

definition error_object :: "unmarshal \<Rightarrow> string \<Rightarrow> (string \<times> json) list option" where
  "error_object json_Unmarshal stderr =
     (case json_Unmarshal stderr of
        None \<Rightarrow> None
      | Some parsedError \<Rightarrow> as_object (map_of parsedError ''error''))"

definition status_field :: "unmarshal \<Rightarrow> string \<Rightarrow> string option" where
  "status_field json_Unmarshal stderr =
     (case error_object json_Unmarshal stderr of
        None \<Rightarrow> None
      | Some info \<Rightarrow> as_string (map_of info ''status''))"

definition message_field :: "unmarshal \<Rightarrow> string \<Rightarrow> string option" where
  "message_field json_Unmarshal stderr =
     (case error_object json_Unmarshal stderr of
        None \<Rightarrow> None
      | Some info \<Rightarrow> as_string (map_of info ''message''))"

text \<open>
  A decoder for the examples: it answers as scripted on the listed texts and returns an error
  on every other text.
\<close>

definition scripted_Unmarshal :: "(string \<times> (string \<times> json) list) list \<Rightarrow> unmarshal" where
  "scripted_Unmarshal answers = map_of answers"

definition stderr_precondition :: string where
  \<open>stderr_precondition = ''{"error":{"status":"FAILED_PRECONDITION"}}''\<close>

definition stderr_quota :: string where
  \<open>stderr_quota = ''{"error":{"message":"quota exceeded"}}''\<close>

definition example_Unmarshal :: unmarshal where
  "example_Unmarshal = scripted_Unmarshal
     [(stderr_precondition, [(''error'', JObject [(''status'', JString ''FAILED_PRECONDITION'')])]),
      (stderr_quota, [(''error'', JObject [(''message'', JString ''quota exceeded'')])])]"

text \<open>\<open>strings.Split(s, "\n")\<close>: the pieces between line feeds, empty ones included.\<close>

fun strings_Split_LF :: "string \<Rightarrow> string list" where
  "strings_Split_LF [] = [[]]"
| "strings_Split_LF (c # s) =
     (if c = CHR 0x0A then [] # strings_Split_LF s
      else (case strings_Split_LF s of
              piece # pieces \<Rightarrow> (c # piece) # pieces
            | [] \<Rightarrow> [[c]]))"

section \<open>Paths of the Go library (\<open>path/filepath\<close> on a Unix system)\<close>

text \<open>The elements of a path: the pieces between slashes, empty ones included.\<close>

fun path_elements :: "string \<Rightarrow> string list" where
  "path_elements [] = [[]]"
| "path_elements (c # s) =
     (if c = CHR ''/'' then [] # path_elements s
      else (case path_elements s of
              piece # pieces \<Rightarrow> (c # piece) # pieces
            | [] \<Rightarrow> [[c]]))"

text \<open>
  \<open>filepath.Clean\<close> works from left to right over the elements with a stack of the kept
  ones: an empty element and \<open>.\<close> are dropped, \<open>..\<close> removes the element before it, is
  dropped at the root and is kept at the start of a relative path.
\<close>

fun clean_elements :: "bool \<Rightarrow> string list \<Rightarrow> string list \<Rightarrow> string list" where
  "clean_elements rooted kept [] = rev kept"
| "clean_elements rooted kept (e # es) =
     (if e = [] \<or> e = ''.'' then clean_elements rooted kept es
      else if e = ''..'' then
        (case kept of
           k # ks \<Rightarrow>
             if k = ''..'' then clean_elements rooted (e # kept) es
             else clean_elements rooted ks es
         | [] \<Rightarrow>
             if rooted then clean_elements rooted kept es
             else clean_elements rooted (e # kept) es)
      else clean_elements rooted (e # kept) es)"

fun join_slash :: "string list \<Rightarrow> string" where
  "join_slash [] = []"
| "join_slash [e] = e"
| "join_slash (e # es) = e @ ''/'' @ join_slash es"

definition filepath_Clean :: "string \<Rightarrow> string" where
  "filepath_Clean path =
     (let rooted = (path \<noteq> [] \<and> hd path = CHR ''/'');
          out = (if rooted then ''/'' else []) @
                join_slash (clean_elements rooted [] (path_elements path))
      in if out = [] then ''.'' else out)"

text \<open>
  \<open>filepath.Join(a, b)\<close>: the elements from the first non-empty one on, joined with slashes
  and cleaned; the empty string when both are empty.
\<close>

definition filepath_Join :: "string \<Rightarrow> string \<Rightarrow> string" where
  "filepath_Join a b =
     (if a \<noteq> [] then filepath_Clean (a @ ''/'' @ b)
      else if b \<noteq> [] then filepath_Clean b
      else [])"

text \<open>
  \<open>filepath.Base\<close>: \<open>.\<close> for the empty path; trailing slashes are stripped, then everything
  up to the last slash; a path of slashes only gives \<open>/\<close>.
\<close>

fun strip_trailing_slashes :: "string \<Rightarrow> string" where
  "strip_trailing_slashes [] = []"
| "strip_trailing_slashes (c # s) =
     (case strip_trailing_slashes s of
        [] \<Rightarrow> if c = CHR ''/'' then [] else [c]
      | t \<Rightarrow> c # t)"

definition filepath_Base :: "string \<Rightarrow> string" where
  "filepath_Base path =
     (if path = [] then ''.''
      else (let last_element = last (path_elements (strip_trailing_slashes path))
            in if last_element = [] then ''/'' else last_element))"

section \<open>Time of the Go library\<close>

text \<open>
  A \<open>time.Time\<close> is an instant, counted in nanoseconds since 1970-01-01 00:00 UTC, shown in
  a location. The location has a fixed offset, in seconds east of UTC: a zone whose offset
  changes between two dates is outside the model. Integers are unbounded: the model covers
  the instants and day counts on which Go's time arithmetic does not overflow.
\<close>

record time_Time =
  instant :: int
  offset :: int

definition nanos_per_day :: int where
  "nanos_per_day = 86400 * 1000000000"

text \<open>The proleptic Gregorian calendar: a day number (0 is 1970-01-01) and its date.\<close>

definition days_from_civil :: "int \<Rightarrow> int \<Rightarrow> int \<Rightarrow> int" where
  "days_from_civil year month day =
     (let y = (if month \<le> 2 then year - 1 else year);
          era = y div 400;
          yoe = y - era * 400;
          mp = (if month > 2 then month - 3 else month + 9);
          doy = (153 * mp + 2) div 5 + day - 1;
          doe = yoe * 365 + yoe div 4 - yoe div 100 + doy
      in era * 146097 + doe - 719468)"

definition civil_from_days :: "int \<Rightarrow> int \<times> int \<times> int" where
  "civil_from_days days =
     (let z = days + 719468;
          era = z div 146097;
          doe = z - era * 146097;
          yoe = (doe - doe div 1460 + doe div 36524 - doe div 146096) div 365;
          doy = doe - (365 * yoe + yoe div 4 - yoe div 100);
          mp = (5 * doy + 2) div 153;
          day = doy - (153 * mp + 2) div 5 + 1;
          month = (if mp < 10 then mp + 3 else mp - 9);
          y = yoe + era * 400
      in (if month \<le> 2 then y + 1 else y, month, day))"

definition isLeap :: "int \<Rightarrow> bool" where
  "isLeap year = (year mod 4 = 0 \<and> (year mod 100 \<noteq> 0 \<or> year mod 400 = 0))"

definition daysIn :: "int \<Rightarrow> int \<Rightarrow> int" where
  "daysIn month year =
     (if month = 2 then (if isLeap year then 29 else 28)
      else if month = 4 \<or> month = 6 \<or> month = 9 \<or> month = 11 then 30
      else 31)"

text \<open>Decimal digits.\<close>

definition isDigit :: "char \<Rightarrow> bool" where
  "isDigit c = (48 \<le> (of_char c :: nat) \<and> (of_char c :: nat) \<le> 57)"

definition digit_value :: "char \<Rightarrow> int" where
  "digit_value c = int (of_char c) - 48"

definition digit_char :: "nat \<Rightarrow> char" where
  "digit_char n = char_of (48 + n mod 10)"

fun decimal :: "nat \<Rightarrow> string" where
  "decimal n = (if n < 10 then [digit_char n] else decimal (n div 10) @ [digit_char n])"

declare decimal.simps [simp del]

text \<open>\<open>appendInt(b, x, width)\<close> of package \<open>time\<close>: a sign, then the digits, zero-padded.\<close>

definition appendInt :: "int \<Rightarrow> nat \<Rightarrow> string" where
  "appendInt x width =
     (let digits = decimal (nat \<bar>x\<bar>)
      in (if x < 0 then ''-'' else []) @ replicate (width - length digits) CHR ''0'' @ digits)"

text \<open>\<open>t.Format("2006-01-02")\<close>: the date of the instant in the location of \<open>t\<close>.\<close>

definition time_Format_date :: "time_Time \<Rightarrow> string" where
  "time_Format_date t =
     (case civil_from_days ((instant t div 1000000000 + offset t) div 86400) of
        (year, month, day) \<Rightarrow> appendInt year 4 @ ''-'' @ appendInt month 2 @ ''-'' @ appendInt day 2)"

text \<open>
  \<open>time.Parse("2006-01-02", value)\<close>: four digits, a dash, two digits of a month from 1 to 12,
  a dash, two digits of a day of that month, and nothing after; the result is midnight UTC of
  that date. \<open>None\<close> is the parse error.
\<close>

definition time_Parse_date :: "string \<Rightarrow> time_Time option" where
  "time_Parse_date v =
     (case v of
        [y1, y2, y3, y4, s1, m1, m2, s2, d1, d2] \<Rightarrow>
          if isDigit y1 \<and> isDigit y2 \<and> isDigit y3 \<and> isDigit y4 \<and> s1 = CHR ''-'' \<and>
             isDigit m1 \<and> isDigit m2 \<and> s2 = CHR ''-'' \<and> isDigit d1 \<and> isDigit d2
          then (let year = digit_value y1 * 1000 + digit_value y2 * 100 +
                           digit_value y3 * 10 + digit_value y4;
                    month = digit_value m1 * 10 + digit_value m2;
                    day = digit_value d1 * 10 + digit_value d2
                in if month \<le> 0 \<or> 12 < month then None
                   else if day < 1 \<or> day > daysIn month year then None
                   else Some \<lparr>instant = days_from_civil year month day * nanos_per_day,
                              offset = 0\<rparr>)
          else None
      | _ \<Rightarrow> None)"

text \<open>
  The text of the error of that parse, \<open>err.Error()\<close>, for a value that does not parse.
  Package \<open>time\<close> quotes a string between double quotes, with a backslash before a double
  quote and a backslash, and \<open>\xhh\<close> for a byte below 32 or above 127. The checks come in the
  order of the layout: the year, the dash, the month and its range, the dash, the day, text
  after the day, and at last the day of the month.
\<close>

definition lowerhex :: "nat \<Rightarrow> char" where
  "lowerhex n = ''0123456789abcdef'' ! (n mod 16)"

definition quote_byte :: "char \<Rightarrow> string" where
  "quote_byte c =
     (if 128 \<le> (of_char c :: nat) \<or> (of_char c :: nat) < 32
      then [CHR 0x5C, CHR ''x'', lowerhex (of_char c div 16), lowerhex (of_char c mod 16)]
      else if c = CHR 0x22 \<or> c = CHR 0x5C then [CHR 0x5C, c]
      else [c])"

definition quote :: "string \<Rightarrow> string" where
  "quote s = [CHR 0x22] @ concat (map quote_byte s) @ [CHR 0x22]"

definition four_digits :: "string \<Rightarrow> bool" where
  "four_digits v = (length (take 4 v) = 4 \<and> list_all isDigit (take 4 v))"

definition two_digits :: "string \<Rightarrow> bool" where
  "two_digits v = (case v of d1 # d2 # rest \<Rightarrow> isDigit d1 \<and> isDigit d2 | _ \<Rightarrow> False)"

definition two_digit_value :: "string \<Rightarrow> int" where
  "two_digit_value v =
     (case v of d1 # d2 # rest \<Rightarrow> digit_value d1 * 10 + digit_value d2 | _ \<Rightarrow> 0)"

definition starts_with_dash :: "string \<Rightarrow> bool" where
  "starts_with_dash v = (case v of c # rest \<Rightarrow> c = CHR ''-'' | [] \<Rightarrow> False)"

definition cannot_parse :: "string \<Rightarrow> string \<Rightarrow> string \<Rightarrow> string" where
  "cannot_parse v valueElem layoutElem =
     ''parsing time '' @ quote v @ '' as '' @ quote ''2006-01-02'' @ '': cannot parse '' @
     quote valueElem @ '' as '' @ quote layoutElem"

definition time_Parse_date_error :: "string \<Rightarrow> string" where
  "time_Parse_date_error v =
     (let after_year = drop 4 v;
          after_dash = drop 5 v;
          after_month = drop 7 v;
          after_dash2 = drop 8 v;
          after_day = drop 10 v
      in if \<not> four_digits v then cannot_parse v v ''2006''
         else if \<not> starts_with_dash after_year then cannot_parse v after_year ''-''
         else if \<not> two_digits after_dash then cannot_parse v after_dash ''01''
         else if two_digit_value after_dash \<le> 0 \<or> 12 < two_digit_value after_dash
           then ''parsing time '' @ quote v @ '': month out of range''
         else if \<not> starts_with_dash after_month then cannot_parse v after_month ''-''
         else if \<not> two_digits after_dash2 then cannot_parse v after_dash2 ''02''
         else if after_day \<noteq> []
           then ''parsing time '' @ quote v @ '': extra text: '' @ quote after_day
         else ''parsing time '' @ quote v @ '': day out of range'')"

text \<open>\<open>t.AddDate(0, 0, days)\<close>: the same clock reading \<open>days\<close> days later.\<close>

definition time_AddDate_days :: "time_Time \<Rightarrow> int \<Rightarrow> time_Time" where
  "time_AddDate_days t days = t\<lparr>instant := instant t + days * nanos_per_day\<rparr>"

text \<open>\<open>t.Before(u)\<close> compares the instants.\<close>

definition time_Before :: "time_Time \<Rightarrow> time_Time \<Rightarrow> bool" where
  "time_Before t u = (instant t < instant u)"

section \<open>The program and its surroundings\<close>

text \<open>
  The program is a sequence of calls to the operating system, to command-line tools and to two
  web hooks. Each call is a value; the surroundings (the \<open>host\<close>) answer it and may change
  their state \<open>'w\<close>. A Go \<open>error\<close> is either one that \<open>os.IsNotExist\<close> recognises or any
  other, with the text that \<open>%v\<close> prints.
\<close>

datatype error = NotExist string | Failure string

fun Error :: "error \<Rightarrow> string" where
  "Error (NotExist text) = text"
| "Error (Failure text) = text"

fun os_IsNotExist :: "error option \<Rightarrow> bool" where
  "os_IsNotExist (Some (NotExist text)) = True"
| "os_IsNotExist _ = False"

text \<open>
  \<open>Command dir argv\<close> is \<open>exec.Command(argv...)\<close> run in directory \<open>dir\<close> (empty: the
  current one). \<open>HttpPost url v\<close> is \<open>http.Post(url, "application/json", body)\<close> where
  \<open>body\<close> is \<open>json.Marshal(v)\<close>; the messages are maps of strings, numbers and lists, which
  \<open>json.Marshal\<close> always encodes, so its error branch is never taken.
\<close>

datatype call =
    OsStat string
  | OsRemoveAll string
  | OsMkdirAll string
  | Command string "string list"
  | HttpPost string json

text \<open>
  The answer to a call: the \<open>error\<close> (\<open>None\<close> is \<open>nil\<close>; for a command a non-zero exit is an
  error), what the command wrote, and the status code of an HTTP response.
\<close>

record reply =
  failure :: "error option"
  stdout :: string
  stderr :: string
  StatusCode :: nat

text \<open>
  What a run leaves behind, in order: the calls with their answers and the lines given to
  \<open>log.Printf\<close> (without the time stamp and the final line feed).
\<close>

datatype event = Called call reply | Logged string

record 'w host =
  exec :: "call \<Rightarrow> 'w \<Rightarrow> reply \<times> 'w"
  now :: "'w \<Rightarrow> time_Time"
  decode :: unmarshal

text \<open>
  A step of the program takes the state of the surroundings and gives a value, the new state
  and the events of the step.
\<close>

type_synonym ('w, 'a) io = "'w \<Rightarrow> 'a \<times> 'w \<times> event list"

definition io_return :: "'a \<Rightarrow> ('w, 'a) io" where
  "io_return x w = (x, w, [])"

definition io_bind :: "('w, 'a) io \<Rightarrow> ('a \<Rightarrow> ('w, 'b) io) \<Rightarrow> ('w, 'b) io" where
  "io_bind m k w =
     (case m w of (x, w1, events1) \<Rightarrow>
        (case k x w1 of (y, w2, events2) \<Rightarrow> (y, w2, events1 @ events2)))"

definition perform :: "'w host \<Rightarrow> call \<Rightarrow> ('w, reply) io" where
  "perform h c w = (case exec h c w of (r, w1) \<Rightarrow> (r, w1, [Called c r]))"

definition time_Now :: "'w host \<Rightarrow> ('w, time_Time) io" where
  "time_Now h w = (now h w, w, [])"

definition log_Printf :: "string \<Rightarrow> ('w, unit) io" where
  "log_Printf line w = ((), w, [Logged line])"

text \<open>A function of the program either returns or panics.\<close>

datatype 'a result = Panicked | Returned 'a

text \<open>The package-level variables, set once by \<open>main\<close> from the command line.\<close>

record globals =
  webhookURL :: string
  tagIDs :: "string list"
  workspaceWebhookURL :: string

definition apigeeBackupDir :: string where
  "apigeeBackupDir = ''/tmp/apigee_backup''"

record ProjectStatus =
  Project :: string
  Status :: string
  Reason :: string

definition LF :: string where
  "LF = [CHR 0x0A]"

fun strings_Join :: "string list \<Rightarrow> string \<Rightarrow> string" where
  "strings_Join [] sep = []"
| "strings_Join [e] sep = e"
| "strings_Join (e # es) sep = e @ sep @ strings_Join es sep"

section \<open>Notifications\<close>

definition discord_message :: "globals \<Rightarrow> string \<Rightarrow> string \<Rightarrow> string \<Rightarrow> string \<Rightarrow> json" where
  "discord_message g project date status reason0 =
     (let reason = (if reason0 = [] then ''no issue'' else reason0);
          content1 = ''**'' @ project @ ''** (`apigee-'' @ project @ ''`) - '' @ status;
          content2 = (if reason \<noteq> [] then content1 @ LF @ ''Reason: '' @ reason else content1);
          content = (if length (tagIDs g) > 0
                     then content2 @ LF @ LF @
                          strings_Join (map (\<lambda>id. ''<@'' @ id @ ''>'') (tagIDs g)) '' ''
                     else content2);
          embed = JObject
            [(''title'', JString (''Apigee Backup Notification '' @ date)),
             (''description'', JString content),
             (''color'', JNumber ''16711680''),
             (''footer'', JObject [(''text'', JString ''Note : Project - Apigee - Status'')])]
      in JObject [(''content'', JString []), (''embeds'', JArray [embed])])"

definition sendDiscordNotification ::
  "'w host \<Rightarrow> globals \<Rightarrow> string \<Rightarrow> string \<Rightarrow> string \<Rightarrow> string \<Rightarrow> ('w, unit) io" where
  "sendDiscordNotification h g project date status reason =
     (if webhookURL g = [] then io_return ()
      else io_bind (perform h (HttpPost (webhookURL g)
                                 (discord_message g project date status reason)))
             (\<lambda>resp. case failure resp of
                Some err \<Rightarrow> log_Printf (''Failed to send Discord notification: '' @ Error err)
              | None \<Rightarrow>
                  if StatusCode resp \<noteq> 204
                  then log_Printf (''Failed to send Discord notification, received status code: ''
                                   @ decimal (StatusCode resp))
                  else io_return ()))"

definition workspace_message :: "string \<Rightarrow> string \<Rightarrow> string \<Rightarrow> string \<Rightarrow> string \<Rightarrow> json" where
  "workspace_message date project dataset status reason0 =
     (let reason = (if reason0 = [] then ''no issue'' else reason0);
          message = ''*Apigee Daily Backup '' @ date @ ''*'' @ LF @ LF @
                    ''*| `Project` | `Apigee-Orgs` | `Status` | `Reason` |*'' @ LF @
                    ''|---|---|---|'' @ LF @
                    ''| `'' @ project @ ''` | `'' @ dataset @ ''` | `'' @ status @
                    ''` | `'' @ reason @ ''` |''
      in JObject [(''text'', JString message)])"

definition sendWorkspaceNotification ::
  "'w host \<Rightarrow> globals \<Rightarrow> string \<Rightarrow> string \<Rightarrow> string \<Rightarrow> string \<Rightarrow> ('w, unit) io" where
  "sendWorkspaceNotification h g project dataset status reason =
     (if workspaceWebhookURL g = [] then io_return ()
      else io_bind (time_Now h)
             (\<lambda>t. io_bind (perform h (HttpPost (workspaceWebhookURL g)
                              (workspace_message (time_Format_date t) project dataset status reason)))
                (\<lambda>resp. case failure resp of
                   Some err \<Rightarrow>
                     log_Printf (''Failed to send Google Workspace notification: '' @ Error err)
                 | None \<Rightarrow>
                     if StatusCode resp \<noteq> 200
                     then log_Printf
                            (''Failed to send Google Workspace notification, received status code: ''
                             @ decimal (StatusCode resp))
                     else io_return ())))"

section \<open>The remote store commands and the retention sweep\<close>

definition backupExistsInGCS :: "'w host \<Rightarrow> string \<Rightarrow> string \<Rightarrow> string \<Rightarrow> ('w, bool) io" where
  "backupExistsInGCS h gcsBucket date env =
     io_bind (perform h (Command [] [''gsutil'', ''ls'',
                ''gs://'' @ gcsBucket @ ''/'' @ env @ ''/'' @ date @ ''/'']))
       (\<lambda>r. io_return (failure r = None))"

definition uploadToGCS ::
  "'w host \<Rightarrow> string \<Rightarrow> string \<Rightarrow> string \<Rightarrow> ('w, error option) io" where
  "uploadToGCS h gcsBucket sourceFile env =
     (let destDir = ''gs://'' @ gcsBucket @ ''/'' @ env @ ''/'' @ filepath_Base sourceFile
      in io_bind (perform h (Command [] [''gsutil'', ''cp'', sourceFile, destDir]))
           (\<lambda>r. io_return (failure r)))"

definition zipFolder :: "'w host \<Rightarrow> string \<Rightarrow> string \<Rightarrow> ('w, error option) io" where
  "zipFolder h sourceDir zipFile =
     io_bind (perform h (Command sourceDir [''zip'', ''-r'', zipFile, ''.'', ''-i'', ''*'']))
       (\<lambda>r. io_return (failure r))"

text \<open>
  The slice expression \<open>s[low:high]\<close> of a string with indices computed at run time: Go
  panics unless \<open>0 \<le> low \<le> high \<le> len(s)\<close>.
\<close>

definition go_slice :: "string \<Rightarrow> int \<Rightarrow> int \<Rightarrow> string result" where
  "go_slice s low high =
     (if 0 \<le> low \<and> low \<le> high \<and> high \<le> int (length s)
      then Returned (take (nat (high - low)) (drop (nat low) s))
      else Panicked)"

definition isOlderThanRetention :: "string \<Rightarrow> time_Time \<Rightarrow> string \<Rightarrow> ('w, bool result) io" where
  "isOlderThanRetention gcsPath cutoffDate env =
     (let base = filepath_Base gcsPath
      in case go_slice base (int (length (''backup_'' @ env @ ''_'')))
                (int (length base) - int (length ''.zip'')) of
           Panicked \<Rightarrow> io_return Panicked
         | Returned dateStr \<Rightarrow>
             (case time_Parse_date dateStr of
                None \<Rightarrow> io_bind (log_Printf (''Failed to parse date from path '' @ gcsPath @
                                     '': '' @ time_Parse_date_error dateStr))
                          (\<lambda>u. io_return (Returned False))
              | Some backupDate \<Rightarrow> io_return (Returned (time_Before backupDate cutoffDate))))"

text \<open>The loop of \<open>cleanupOldBackups\<close> over the lines of the listing.\<close>

fun cleanup_lines ::
  "'w host \<Rightarrow> time_Time \<Rightarrow> string \<Rightarrow> string list \<Rightarrow> ('w, unit result) io" where
  "cleanup_lines h cutoffDate env [] = io_return (Returned ())"
| "cleanup_lines h cutoffDate env (line # lines) =
     (if line = [] then cleanup_lines h cutoffDate env lines
      else io_bind (isOlderThanRetention line cutoffDate env)
             (\<lambda>older. case older of
                Panicked \<Rightarrow> io_return Panicked
              | Returned False \<Rightarrow> cleanup_lines h cutoffDate env lines
              | Returned True \<Rightarrow>
                  io_bind (perform h (Command [] [''gsutil'', ''rm'', line]))
                    (\<lambda>r. io_bind
                       (case failure r of
                          Some err \<Rightarrow> log_Printf (''Failed to delete old backup '' @ line @ '': ''
                                                   @ Error err)
                        | None \<Rightarrow> log_Printf (''Deleted old backup '' @ line))
                       (\<lambda>u. cleanup_lines h cutoffDate env lines))))"

definition cleanupOldBackups ::
  "'w host \<Rightarrow> string \<Rightarrow> int \<Rightarrow> string \<Rightarrow> ('w, error option result) io" where
  "cleanupOldBackups h gcsBucket retentionDays env =
     io_bind (perform h (Command [] [''gsutil'', ''ls'',
                ''gs://'' @ gcsBucket @ ''/'' @ env @ ''/'']))
       (\<lambda>r. case failure r of
          Some err \<Rightarrow>
            io_return (Returned (Some (Failure (''failed to list GCS bucket: '' @ Error err))))
        | None \<Rightarrow>
            io_bind (time_Now h)
              (\<lambda>t. io_bind (cleanup_lines h (time_AddDate_days t (- retentionDays)) env
                               (strings_Split_LF (stdout r)))
                 (\<lambda>swept. case swept of
                    Panicked \<Rightarrow> io_return Panicked
                  | Returned u \<Rightarrow> io_return (Returned None))))"

section \<open>The backup of one project\<close>

text \<open>
  \<open>backupProject\<close> is one Go function; it is cut here at its comments into the retention
  step, the archive and upload steps, the export step and the preparation, each returning the
  status that \<open>backupProject\<close> returns when it leaves there.
\<close>

definition failed :: "ProjectStatus \<Rightarrow> string \<Rightarrow> ProjectStatus" where
  "failed status reason = status\<lparr>Status := ''Failed'', Reason := reason\<rparr>"

definition fail_with ::
  "ProjectStatus \<Rightarrow> string \<Rightarrow> error \<Rightarrow> ('w, ProjectStatus result) io" where
  "fail_with status what err =
     io_bind (log_Printf (what @ '': '' @ Error err))
       (\<lambda>u. io_return (Returned (failed status (what @ '': '' @ Error err))))"

text \<open>Lines 200 to 208: the cleanup of old backups.\<close>

definition backup_cleanup ::
  "'w host \<Rightarrow> ProjectStatus \<Rightarrow> string \<Rightarrow> int \<Rightarrow> string \<Rightarrow> ('w, ProjectStatus result) io" where
  "backup_cleanup h status gcsBucket retentionDays ENV =
     io_bind (cleanupOldBackups h gcsBucket retentionDays ENV)
       (\<lambda>r. case r of
          Panicked \<Rightarrow> io_return Panicked
        | Returned (Some err) \<Rightarrow> fail_with status ''Failed to clean up old backups'' err
        | Returned None \<Rightarrow> io_return (Returned status))"

text \<open>Lines 177 to 198: the archive, the upload and the notifications of the success.\<close>

definition backup_archive ::
  "'w host \<Rightarrow> globals \<Rightarrow> ProjectStatus \<Rightarrow> string \<Rightarrow> string \<Rightarrow> int \<Rightarrow> string \<Rightarrow> string
     \<Rightarrow> string \<Rightarrow> ('w, ProjectStatus result) io" where
  "backup_archive h g status project gcsBucket retentionDays today dateFolder exportFolder =
     (let ENV = project;
          zipFile = filepath_Join dateFolder (''backup_'' @ ENV @ ''_'' @ today @ ''.zip'')
      in io_bind (zipFolder h exportFolder zipFile)
           (\<lambda>zipped. case zipped of
              Some err \<Rightarrow> fail_with status ''Failed to zip folder'' err
            | None \<Rightarrow>
                io_bind (uploadToGCS h gcsBucket zipFile ENV)
                  (\<lambda>uploaded. case uploaded of
                     Some err \<Rightarrow> fail_with status ''Failed to upload backup to GCS'' err
                   | None \<Rightarrow>
                       io_bind (sendDiscordNotification h g project today ''Complete'' ''no issue'')
                         (\<lambda>u. io_bind
                            (sendWorkspaceNotification h g project (''apigee-'' @ project)
                               ''Complete'' ''no issue'')
                            (\<lambda>u. backup_cleanup h status gcsBucket retentionDays ENV)))))"

text \<open>Lines 137 to 175: the two folders and the export.\<close>

definition backup_export ::
  "'w host \<Rightarrow> globals \<Rightarrow> ProjectStatus \<Rightarrow> string \<Rightarrow> string \<Rightarrow> string \<Rightarrow> int \<Rightarrow> string
     \<Rightarrow> ('w, ProjectStatus result) io" where
  "backup_export h g status project gcsBucket token retentionDays today =
     (let dateFolder = filepath_Join apigeeBackupDir today
      in io_bind (perform h (OsMkdirAll dateFolder))
           (\<lambda>made. case failure made of
              Some err \<Rightarrow> fail_with status ''Failed to create date folder'' err
            | None \<Rightarrow>
                (let exportFolder = filepath_Join apigeeBackupDir ''export''
                 in io_bind (perform h (OsMkdirAll exportFolder))
                      (\<lambda>made. case failure made of
                         Some err \<Rightarrow> fail_with status ''Failed to create export folder'' err
                       | None \<Rightarrow>
                           io_bind (perform h (Command [] [''bash'', ''-c'',
                                      ''cd '' @ exportFolder @
                                      '' && apigeecli organizations export --all -o '' @ project @
                                      '' -t '' @ token]))
                             (\<lambda>ran. case failure ran of
                                None \<Rightarrow> backup_archive h g status project gcsBucket retentionDays
                                          today dateFolder exportFolder
                              | Some err \<Rightarrow>
                                  io_bind (log_Printf (''Failed to execute apigeecli command: ''
                                                       @ Error err))
                                    (\<lambda>u. let errorMessage = parseError (decode h) (stderr ran)
                                          in if \<not> strings_Contains errorMessage ''FAILED_PRECONDITION''
                                             then io_bind (sendDiscordNotification h g project today
                                                             ''Failed'' errorMessage)
                                                    (\<lambda>u. io_bind
                                                       (sendWorkspaceNotification h g project
                                                          (''apigee-'' @ project) ''Failed''
                                                          errorMessage)
                                                       (\<lambda>u. io_return
                                                          (Returned (failed status errorMessage))))
                                             else io_bind
                                                    (log_Printf
                                                       (''Continuing despite FAILED_PRECONDITION error: ''
                                                        @ errorMessage))
                                                    (\<lambda>u. backup_archive h g status project gcsBucket
                                                            retentionDays today dateFolder
                                                            exportFolder)))))))"

text \<open>Lines 128 to 135: today's date and the check for a backup of today.\<close>

definition backup_check ::
  "'w host \<Rightarrow> globals \<Rightarrow> ProjectStatus \<Rightarrow> string \<Rightarrow> string \<Rightarrow> string \<Rightarrow> int
     \<Rightarrow> ('w, ProjectStatus result) io" where
  "backup_check h g status project gcsBucket token retentionDays =
     io_bind (time_Now h)
       (\<lambda>t. let today = time_Format_date t; ENV = project
             in io_bind (backupExistsInGCS h gcsBucket today ENV)
                  (\<lambda>found. if found
                     then io_bind (log_Printf (''Backup for '' @ today @
                                     '' already exists in GCS. Skipping new backup.''))
                            (\<lambda>u. io_return (Returned status))
                     else backup_export h g status project gcsBucket token retentionDays today))"

text \<open>Lines 119 to 126: the staging directory is created.\<close>

definition backup_create ::
  "'w host \<Rightarrow> globals \<Rightarrow> ProjectStatus \<Rightarrow> string \<Rightarrow> string \<Rightarrow> string \<Rightarrow> int
     \<Rightarrow> ('w, ProjectStatus result) io" where
  "backup_create h g status project gcsBucket token retentionDays =
     io_bind (perform h (OsMkdirAll apigeeBackupDir))
       (\<lambda>made. case failure made of
          Some err \<Rightarrow> fail_with status ''Failed to create backup directory'' err
        | None \<Rightarrow> backup_check h g status project gcsBucket token retentionDays)"

definition backupProject ::
  "'w host \<Rightarrow> globals \<Rightarrow> string \<Rightarrow> string \<Rightarrow> string \<Rightarrow> int \<Rightarrow> ('w, ProjectStatus result) io" where
  "backupProject h g project gcsBucket token retentionDays =
     (let status = \<lparr>Project = project, Status = ''Complete'', Reason = ''no issue''\<rparr>
      in io_bind (perform h (OsStat apigeeBackupDir))
           (\<lambda>found. if \<not> os_IsNotExist (failure found)
              then io_bind (perform h (OsRemoveAll apigeeBackupDir))
                     (\<lambda>removed. case failure removed of
                        Some err \<Rightarrow>
                          fail_with status ''Failed to delete existing backup directory'' err
                      | None \<Rightarrow> backup_create h g status project gcsBucket token retentionDays)
              else backup_create h g status project gcsBucket token retentionDays))"

text \<open>
  Lines 71 to 75 of \<open>main\<close>: the projects in order, one status appended for each. A panic of
  \<open>backupProject\<close> is recovered nowhere: it ends the loop and the program.
\<close>

fun main_loop ::
  "'w host \<Rightarrow> globals \<Rightarrow> string \<Rightarrow> string \<Rightarrow> int \<Rightarrow> ProjectStatus list \<Rightarrow> string list
     \<Rightarrow> ('w, ProjectStatus list result) io" where
  "main_loop h g gcsBucket token retentionDays statuses [] = io_return (Returned statuses)"
| "main_loop h g gcsBucket token retentionDays statuses (project # projects) =
     io_bind (backupProject h g project gcsBucket token retentionDays)
       (\<lambda>r. case r of
          Panicked \<Rightarrow> io_return Panicked
        | Returned status \<Rightarrow>
            main_loop h g gcsBucket token retentionDays (statuses @ [status]) projects)"

section \<open>The project list reader\<close>

text \<open>
  \<open>strings.TrimSpace\<close> removes the leading and then the trailing white space, as Unicode
  defines it. A Go string holds UTF-8: the white space characters are the six of ASCII and
  U+0085, U+00A0, U+1680, U+2000 to U+200A, U+2028, U+2029, U+202F, U+205F and U+3000, each
  with one encoding; a byte that does not start a well-formed encoding is no white space.
\<close>

definition space_encodings :: "string list" where
  "space_encodings =
     [[CHR 0x09], [CHR 0x0A], [CHR 0x0B], [CHR 0x0C], [CHR 0x0D], [CHR 0x20],
      [CHR 0xC2, CHR 0x85], [CHR 0xC2, CHR 0xA0],
      [CHR 0xE1, CHR 0x9A, CHR 0x80],
      [CHR 0xE2, CHR 0x80, CHR 0x80], [CHR 0xE2, CHR 0x80, CHR 0x81],
      [CHR 0xE2, CHR 0x80, CHR 0x82], [CHR 0xE2, CHR 0x80, CHR 0x83],
      [CHR 0xE2, CHR 0x80, CHR 0x84], [CHR 0xE2, CHR 0x80, CHR 0x85],
      [CHR 0xE2, CHR 0x80, CHR 0x86], [CHR 0xE2, CHR 0x80, CHR 0x87],
      [CHR 0xE2, CHR 0x80, CHR 0x88], [CHR 0xE2, CHR 0x80, CHR 0x89],
      [CHR 0xE2, CHR 0x80, CHR 0x8A],
      [CHR 0xE2, CHR 0x80, CHR 0xA8], [CHR 0xE2, CHR 0x80, CHR 0xA9],
      [CHR 0xE2, CHR 0x80, CHR 0xAF], [CHR 0xE2, CHR 0x81, CHR 0x9F],
      [CHR 0xE3, CHR 0x80, CHR 0x80]]"

text \<open>Removing the listed words from the front of a string for as long as one is there.\<close>

function strip_leading :: "string list \<Rightarrow> string \<Rightarrow> string" where
  "strip_leading words s =
     (case find (\<lambda>e. e \<noteq> [] \<and> prefix e s) words of
        None \<Rightarrow> s
      | Some e \<Rightarrow> strip_leading words (drop (length e) s))"
  by pat_completeness auto
termination
proof (relation "measure (\<lambda>(words, s). length s)")
  show "wf (measure (\<lambda>(words, s). length s))" by simp
next
  fix words :: "string list" and s e :: string
  assume "find (\<lambda>e. e \<noteq> [] \<and> prefix e s) words = Some e"
  then have "e \<noteq> []" and "prefix e s"
    by (auto simp: find_Some_iff)
  then have "s \<noteq> []" by auto
  with \<open>e \<noteq> []\<close> show "((words, drop (length e) s), (words, s)) \<in> measure (\<lambda>(words, s). length s)"
    by simp
qed

declare strip_leading.simps [simp del]

definition strings_TrimSpace :: "string \<Rightarrow> string" where
  "strings_TrimSpace s =
     rev (strip_leading (map rev space_encodings) (rev (strip_leading space_encodings s)))"

text \<open>
  What \<open>os.Open\<close> and the reads of the file give: the file cannot be opened, or its bytes
  come, up to the end of the file (\<open>None\<close>) or up to a read error.
\<close>

datatype project_file = CannotOpen error | Contents string "error option"

definition MaxScanTokenSize :: nat where
  "MaxScanTokenSize = 64 * 1024"

definition ErrTooLong :: error where
  "ErrTooLong = Failure ''bufio.Scanner: token too long''"

definition dropCR :: "string \<Rightarrow> string" where
  "dropCR data = (if data \<noteq> [] \<and> last data = CHR 0x0D then butlast data else data)"

text \<open>
  The tokens of a \<open>bufio.Scanner\<close> with the split function \<open>ScanLines\<close> and the error of
  \<open>scanner.Err()\<close>, over the pieces between the line feeds of the bytes that came. The last
  piece has no line feed after it and is a token only when it is not empty. The buffer of
  the scanner grows to \<open>MaxScanTokenSize\<close> bytes: when it is full and holds no line feed, the
  scan stops with \<open>ErrTooLong\<close>.
\<close>

fun scan_pieces :: "string list \<Rightarrow> error option \<Rightarrow> string list \<times> error option" where
  "scan_pieces [] ended = ([], ended)"
| "scan_pieces [final] ended =
     (if length final \<ge> MaxScanTokenSize then ([], Some ErrTooLong)
      else (if final = [] then [] else [dropCR final], ended))"
| "scan_pieces (piece # pieces) ended =
     (if length piece \<ge> MaxScanTokenSize then ([], Some ErrTooLong)
      else (case scan_pieces pieces ended of
              (tokens, err) \<Rightarrow> (dropCR piece # tokens, err)))"

text \<open>The loop of \<open>readProjectFile\<close> over the tokens.\<close>

fun collect_projects :: "string list \<Rightarrow> string list \<Rightarrow> string list" where
  "collect_projects projects [] = projects"
| "collect_projects projects (text # texts) =
     (let project = strings_TrimSpace text
      in if project \<noteq> [] then collect_projects (projects @ [project]) texts
         else collect_projects projects texts)"

definition readProjectFile :: "project_file \<Rightarrow> error + string list" where
  "readProjectFile f =
     (case f of
        CannotOpen err \<Rightarrow> Inl err
      | Contents data ended \<Rightarrow>
          (case scan_pieces (strings_Split_LF data) ended of
             (tokens, scan_err) \<Rightarrow>
               (let projects = collect_projects [] tokens
                in case scan_err of
                     Some err \<Rightarrow> Inl err
                   | None \<Rightarrow> Inr projects)))"

text \<open>
  The words of the specification: the lines of a file, each ended by a line feed or by a
  carriage return and a line feed, the last one possibly by the end of the file; and the
  trimmed lines that are not blank, in the order of the file.
\<close>

definition file_lines :: "string \<Rightarrow> string list" where
  "file_lines data =
     (let pieces = strings_Split_LF data
      in map dropCR (if last pieces = [] then butlast pieces else pieces))"

definition trimmed_nonblank_lines :: "string \<Rightarrow> string list" where
  "trimmed_nonblank_lines data =
     filter (\<lambda>line. line \<noteq> []) (map strings_TrimSpace (file_lines data))"


text \<open>A file with a line of \<open>MaxScanTokenSize\<close> bytes or more before its line feed.\<close>

definition too_long :: "string \<Rightarrow> bool" where
  "too_long data = (\<exists>piece \<in> set (strings_Split_LF data). MaxScanTokenSize \<le> length piece)"

text \<open>
  A project list with a line ended by a carriage return, a line of a tab and a space, an
  empty line, a line between a no-break space and an ideographic space, a duplicate and no
  final line feed.
\<close>

definition sample_project_file :: string where
  "sample_project_file =
     ''proj-a'' @ [CHR 0x0D, CHR 0x0A] @ [CHR 0x09, CHR 0x20] @ [CHR 0x0A, CHR 0x0A] @
     [CHR 0xC2, CHR 0xA0] @ '' proj-b '' @ [CHR 0xE3, CHR 0x80, CHR 0x80] @ [CHR 0x0A] @ ''proj-a''"

section \<open>Reading the events of a run\<close>

fun calls :: "event list \<Rightarrow> call list" where
  "calls [] = []"
| "calls (Called c r # events) = c # calls events"
| "calls (Logged line # events) = calls events"

text \<open>
  The kinds of calls of a backup, by program and subcommand: the export runs \<open>bash\<close>, the
  archive \<open>zip\<close>, the upload \<open>gsutil cp\<close>, the listings \<open>gsutil ls\<close>, a deletion
  \<open>gsutil rm\<close>, and a notification is an HTTP request.
\<close>

fun is_export :: "call \<Rightarrow> bool" where
  "is_export (Command dir (tool # args)) = (tool = ''bash'')"
| "is_export c = False"

fun is_archive :: "call \<Rightarrow> bool" where
  "is_archive (Command dir (tool # args)) = (tool = ''zip'')"
| "is_archive c = False"

fun is_gsutil :: "string \<Rightarrow> call \<Rightarrow> bool" where
  "is_gsutil sub (Command dir (tool # arg # args)) = (tool = ''gsutil'' \<and> arg = sub)"
| "is_gsutil sub c = False"

definition is_upload :: "call \<Rightarrow> bool" where
  "is_upload c = is_gsutil ''cp'' c"

definition is_listing :: "call \<Rightarrow> bool" where
  "is_listing c = is_gsutil ''ls'' c"

definition is_deletion :: "call \<Rightarrow> bool" where
  "is_deletion c = is_gsutil ''rm'' c"

fun is_notification :: "call \<Rightarrow> bool" where
  "is_notification (HttpPost url message) = True"
| "is_notification c = False"

text \<open>The answers to the calls of one kind, in order.\<close>

fun replies :: "(call \<Rightarrow> bool) \<Rightarrow> event list \<Rightarrow> reply list" where
  "replies kind [] = []"
| "replies kind (Called c r # events) =
     (if kind c then r # replies kind events else replies kind events)"
| "replies kind (Logged line # events) = replies kind events"

text \<open>
  In the events of \<open>backupProject\<close> the first listing is the one of \<open>backupExistsInGCS\<close>
  (the check for a backup of today) and the second, made only after that check failed, is the
  one of \<open>cleanupOldBackups\<close>. The check returns true when its listing has no error.
\<close>

definition probe_found :: "event list \<Rightarrow> bool" where
  "probe_found events =
     (case replies is_listing events of
        [] \<Rightarrow> False
      | r # rs \<Rightarrow> failure r = None)"

definition sweep_error :: "event list \<Rightarrow> error option" where
  "sweep_error events =
     (case replies is_listing events of
        r1 # r2 # rs \<Rightarrow> failure r2
      | _ \<Rightarrow> None)"

text \<open>The answer to the export command of a backup, if it was run.\<close>

definition export_reply :: "event list \<Rightarrow> reply option" where
  "export_reply events =
     (case replies is_export events of
        [] \<Rightarrow> None
      | r # rs \<Rightarrow> Some r)"

text \<open>The paths given to \<open>gsutil rm\<close>, in order.\<close>

fun deleted :: "event list \<Rightarrow> string list" where
  "deleted [] = []"
| "deleted (Called (Command dir [tool, sub, path]) r # events) =
     (if tool = ''gsutil'' \<and> sub = ''rm'' then path # deleted events else deleted events)"
| "deleted (e # events) = deleted events"

text \<open>
  The strings of a message, and the words of the specification for what a notification says:
  a request mentions a text when one of the strings of its message holds the text.
\<close>

fun json_strings :: "json \<Rightarrow> string list" where
  "json_strings (JString s) = [s]"
| "json_strings (JArray values) = concat (map json_strings values)"
| "json_strings (JObject members) = concat (map (\<lambda>member. json_strings (snd member)) members)"
| "json_strings v = []"

definition mentions :: "call \<Rightarrow> string \<Rightarrow> bool" where
  "mentions c text =
     (case c of
        HttpPost url body \<Rightarrow> (\<exists>s \<in> set (json_strings body). strings_Contains s text)
      | _ \<Rightarrow> False)"

text \<open>
  The notification of a project with a status and a reason, as the calls to the sinks that are
  configured: \<open>date\<close> is the date in the title for the first sink and \<open>date'\<close> the date in
  the text for the second.
\<close>

definition project_notifications ::
  "globals \<Rightarrow> string \<Rightarrow> string \<Rightarrow> string \<Rightarrow> string \<Rightarrow> string \<Rightarrow> call list" where
  "project_notifications g project date date' status reason =
     (if webhookURL g = [] then []
      else [HttpPost (webhookURL g) (discord_message g project date status reason)]) @
     (if workspaceWebhookURL g = [] then []
      else [HttpPost (workspaceWebhookURL g)
              (workspace_message date' project (''apigee-'' @ project) status reason)])"

text \<open>Events whose calls all go to the local file system.\<close>

definition file_system_only :: "event list \<Rightarrow> bool" where
  "file_system_only events =
     (\<forall>c \<in> set (calls events). \<exists>path. c = OsStat path \<or> c = OsRemoveAll path \<or> c = OsMkdirAll path)"

text \<open>
  What follows the answer \<open>re\<close> of the export command in a run that ends with the result
  \<open>res\<close> in the state \<open>w'\<close>: after an export without error the archive step; after an error
  whose classified message holds \<open>FAILED_PRECONDITION\<close> two lines in the log and the archive
  step; after any other error one line in the log and the notifications of the failure.
\<close>

definition after_export ::
  "'w host \<Rightarrow> globals \<Rightarrow> ProjectStatus \<Rightarrow> string \<Rightarrow> string \<Rightarrow> int \<Rightarrow> string \<Rightarrow> reply
     \<Rightarrow> event list \<Rightarrow> ProjectStatus result \<Rightarrow> 'w \<Rightarrow> bool" where
  "after_export h g status project gcsBucket retentionDays today re rest res w' =
     ((failure re = None \<and>
       (\<exists>w1. backup_archive h g status project gcsBucket retentionDays today
               (filepath_Join apigeeBackupDir today)
               (filepath_Join apigeeBackupDir ''export'') w1 = (res, w', rest))) \<or>
      (failure re \<noteq> None \<and>
       strings_Contains (parseError (decode h) (stderr re)) ''FAILED_PRECONDITION'' \<and>
       (\<exists>w1 line1 line2 rest'. rest = Logged line1 # Logged line2 # rest' \<and>
          backup_archive h g status project gcsBucket retentionDays today
            (filepath_Join apigeeBackupDir today)
            (filepath_Join apigeeBackupDir ''export'') w1 = (res, w', rest'))) \<or>
      (failure re \<noteq> None \<and>
       \<not> strings_Contains (parseError (decode h) (stderr re)) ''FAILED_PRECONDITION'' \<and>
       (\<exists>line sent date'. rest = Logged line # sent \<and>
          calls sent = project_notifications g project today date' ''Failed''
                         (parseError (decode h) (stderr re)) \<and>
          res = Returned (failed status (parseError (decode h) (stderr re))))))"

section \<open>Surroundings for the examples\<close>

definition ok :: reply where
  "ok = \<lparr>failure = None, stdout = [], stderr = [], StatusCode = 200\<rparr>"

definition exit_status_1 :: "string \<Rightarrow> reply" where
  "exit_status_1 text =
     \<lparr>failure = Some (Failure ''exit status 1''), stdout = [], stderr = text, StatusCode = 0\<rparr>"

text \<open>Surroundings without a state, where each call has a fixed answer and the clock stands.\<close>

definition fixed_host :: "(call \<Rightarrow> reply) \<Rightarrow> time_Time \<Rightarrow> unmarshal \<Rightarrow> unit host" where
  "fixed_host answer t U = \<lparr>exec = (\<lambda>c w. (answer c, w)), now = (\<lambda>w. t), decode = U\<rparr>"

text \<open>
  A remote store after the documented behaviour of \<open>gsutil\<close> on names without wildcards: the
  state is the list of the object names, in the order of a listing. \<open>gsutil ls url\<close>, for a
  \<open>url\<close> that ends in a slash, prints the names below \<open>url\<close> cut after the next slash, one on a
  line, and exits with status 1 when there is none; \<open>gsutil cp file url\<close> stores an object
  under \<open>url\<close>; \<open>gsutil rm url\<close> removes the object \<open>url\<close> and exits with status 1 when there
  is none.
\<close>

definition listed_name :: "string \<Rightarrow> string \<Rightarrow> string" where
  "listed_name url object =
     (let below = drop (length url) object
      in url @ takeWhile (\<lambda>c. c \<noteq> CHR ''/'') below @
         (if CHR ''/'' \<in> set below then ''/'' else []))"

definition gsutil_ls :: "string \<Rightarrow> string list \<Rightarrow> reply" where
  "gsutil_ls url objects =
     (let found = remdups (map (listed_name url) (filter (prefix url) objects))
      in if found = [] then exit_status_1 ''CommandException: One or more URLs matched no objects.''
         else ok\<lparr>stdout := concat (map (\<lambda>name. name @ LF) found)\<rparr>)"

fun gsutil :: "string list \<Rightarrow> string list \<Rightarrow> reply \<times> string list" where
  "gsutil [sub, url] objects =
     (if sub = ''ls'' then (gsutil_ls url objects, objects)
      else if sub = ''rm'' then
        (if url \<in> set objects then (ok, removeAll url objects)
         else (exit_status_1 ''CommandException: No URLs matched'', objects))
      else (exit_status_1 ''CommandException: Invalid command'', objects))"
| "gsutil [sub, file, url] objects =
     (if sub = ''cp'' then (ok, if url \<in> set objects then objects else objects @ [url])
      else (exit_status_1 ''CommandException: Invalid command'', objects))"
| "gsutil args objects = (exit_status_1 ''CommandException: Invalid command'', objects)"

text \<open>
  Surroundings with that store: the staging directory does not exist yet, the export gives
  the answer \<open>export\<close>, and every other call succeeds.
\<close>

fun store_exec :: "reply \<Rightarrow> call \<Rightarrow> string list \<Rightarrow> reply \<times> string list" where
  "store_exec export (Command dir (tool # args)) objects =
     (if tool = ''gsutil'' then gsutil args objects
      else if tool = ''bash'' then (export, objects)
      else (ok, objects))"
| "store_exec export (OsStat path) objects =
     (ok\<lparr>failure := Some (NotExist (''stat '' @ path @ '': no such file or directory''))\<rparr>,
      objects)"
| "store_exec export c objects = (ok, objects)"

definition store_host :: "reply \<Rightarrow> time_Time \<Rightarrow> unmarshal \<Rightarrow> string list host" where
  "store_host export t U = \<lparr>exec = store_exec export, now = (\<lambda>objects. t), decode = U\<rparr>"

text \<open>Noon UTC of 2024-03-01, shown in UTC.\<close>

definition noon_2024_03_01 :: time_Time where
  "noon_2024_03_01 = \<lparr>instant = 19783 * nanos_per_day + 43200 * 1000000000, offset = 0\<rparr>"

definition no_sinks :: globals where
  "no_sinks = \<lparr>webhookURL = [], tagIDs = [], workspaceWebhookURL = []\<rparr>"

definition both_sinks :: globals where
  "both_sinks = \<lparr>webhookURL = ''https://discord.example/hook'', tagIDs = [],
     workspaceWebhookURL = ''https://chat.example/hook''\<rparr>"


text \<open>Two runs of the export that end with an error, with the error texts of the examples.\<close>

definition quota_host :: "string list host" where
  "quota_host = store_host (exit_status_1 stderr_quota) noon_2024_03_01 example_Unmarshal"

definition precondition_host :: "string list host" where
  "precondition_host =
     store_host (exit_status_1 stderr_precondition) noon_2024_03_01 example_Unmarshal"

text \<open>
  An export that ends with an error and a text that is not JSON and holds the token; and one
  whose text holds the unauthorized sentence as well.
\<close>

definition stderr_raw_precondition :: string where
  "stderr_raw_precondition = ''rpc error: code = FAILED_PRECONDITION''"

definition stderr_unauthorized_precondition :: string where
  "stderr_unauthorized_precondition =
     ''Unauthorized - the client must authenticate itself (FAILED_PRECONDITION)''"

definition raw_precondition_host :: "string list host" where
  "raw_precondition_host =
     store_host (exit_status_1 stderr_raw_precondition) noon_2024_03_01 example_Unmarshal"

definition unauthorized_host :: "string list host" where
  "unauthorized_host =
     store_host (exit_status_1 stderr_unauthorized_precondition) noon_2024_03_01 example_Unmarshal"

text \<open>Surroundings where every listing of the remote store fails.\<close>

definition no_listing_answer :: "call \<Rightarrow> reply" where
  "no_listing_answer c =
     (if is_listing c then exit_status_1 ''ServiceException: 401 Anonymous caller'' else ok)"

definition no_listing_host :: "unit host" where
  "no_listing_host = fixed_host no_listing_answer noon_2024_03_01 example_Unmarshal"

text \<open>
  The words of the specification for the retention sweep. The date embedded in a listed path
  is read at the place where the naming convention \<open>backup_<project>_<YYYY-MM-DD>.zip\<close> puts
  it: after as many characters of the file name as \<open>backup_<project>_\<close> has, up to the last
  four. A path is an old backup when that date parses and is before the cutoff.
\<close>

definition embedded_date :: "string \<Rightarrow> string \<Rightarrow> time_Time option" where
  "embedded_date env gcsPath =
     (let base = filepath_Base gcsPath
      in if length (''backup_'' @ env @ ''_'') + length ''.zip'' \<le> length base
         then time_Parse_date
                (take (length base - length ''.zip'' - length (''backup_'' @ env @ ''_''))
                   (drop (length (''backup_'' @ env @ ''_'')) base))
         else None)"

definition old_backup :: "time_Time \<Rightarrow> string \<Rightarrow> string \<Rightarrow> bool" where
  "old_backup cutoffDate env gcsPath =
     (case embedded_date env gcsPath of
        None \<Rightarrow> False
      | Some backupDate \<Rightarrow> time_Before backupDate cutoffDate)"

text \<open>A file name long enough to hold the prefix and the suffix of the naming convention.\<close>

definition long_enough :: "string \<Rightarrow> string \<Rightarrow> bool" where
  "long_enough env gcsPath =
     (length (''backup_'' @ env @ ''_'') + length ''.zip'' \<le> length (filepath_Base gcsPath))"

text \<open>
  A store of the project \<open>proj-a\<close> that holds a file with a short name before a backup of
  2024-01-01, and surroundings where the export succeeds.
\<close>

definition stale_store :: "string list" where
  "stale_store = [''gs://bucket/proj-a/notes.txt'',
                  ''gs://bucket/proj-a/backup_proj-a_2024-01-01.zip'']"

definition plain_host :: "string list host" where
  "plain_host = store_host ok noon_2024_03_01 example_Unmarshal"

section \<open>Properties of the error classifier\<close>

lemma parseError_sentinel:
  "status_field U s = Some FAILED_PRECONDITION \<Longrightarrow> parseError U s = precondition_message"
  by (auto simp: parseError_def status_field_def error_object_def split: option.splits)

lemma parseError_message:
  "status_field U s \<noteq> Some FAILED_PRECONDITION \<Longrightarrow> message_field U s = Some m
    \<Longrightarrow> parseError U s = m"
  by (auto simp: parseError_def status_field_def message_field_def error_object_def
      split: option.splits)

lemma parseError_unstructured:
  "status_field U s \<noteq> Some FAILED_PRECONDITION \<Longrightarrow> message_field U s = None
    \<Longrightarrow> parseError U s = parseError_raw s"
  by (auto simp: parseError_def status_field_def message_field_def error_object_def
      split: option.splits)

lemma example_Unmarshal_simps:
  "example_Unmarshal stderr_precondition =
     Some [(''error'', JObject [(''status'', JString ''FAILED_PRECONDITION'')])]"
  "example_Unmarshal stderr_quota =
     Some [(''error'', JObject [(''message'', JString ''quota exceeded'')])]"
  "example_Unmarshal ''403 Unauthorized - the client must authenticate itself'' = None"
  "example_Unmarshal ''connection reset'' = None"
  by (simp_all add: example_Unmarshal_def scripted_Unmarshal_def stderr_precondition_def
      stderr_quota_def)

text \<open>
  C7. The classifier is a function of the error text (and of the decoder's answer on it) with
  this case order: a structured error object whose status is the sentinel gives the canonical
  precondition message; otherwise a message field of the error object is returned; otherwise
  a text containing the unauthorized substring gives the canonical unauthorized message;
  otherwise the text comes back unchanged.
\<close>

theorem parseError_case_order:
  "(status_field U s = Some FAILED_PRECONDITION \<longrightarrow> parseError U s = precondition_message) \<and>
   (status_field U s \<noteq> Some FAILED_PRECONDITION \<longrightarrow>
      (\<forall>m. message_field U s = Some m \<longrightarrow> parseError U s = m) \<and>
      (message_field U s = None \<longrightarrow>
         (strings_Contains s unauthorized_message \<longrightarrow> parseError U s = unauthorized_message) \<and>
         (\<not> strings_Contains s unauthorized_message \<longrightarrow> parseError U s = s)))"
  using parseError_sentinel [of U s] parseError_message [of U s]
    parseError_unstructured [of U s]
  by (simp add: parseError_raw_def)

theorem parseError_case_order_witness:
  "parseError example_Unmarshal stderr_precondition = precondition_message \<and>
   parseError example_Unmarshal stderr_quota = ''quota exceeded'' \<and>
   parseError example_Unmarshal ''403 Unauthorized - the client must authenticate itself''
     = unauthorized_message \<and>
   parseError example_Unmarshal ''connection reset'' = ''connection reset''"
proof -
  have 1: "status_field example_Unmarshal stderr_precondition = Some FAILED_PRECONDITION"
    by (simp add: status_field_def error_object_def example_Unmarshal_simps
        FAILED_PRECONDITION_def)
  have 2: "status_field example_Unmarshal stderr_quota \<noteq> Some FAILED_PRECONDITION"
    "message_field example_Unmarshal stderr_quota = Some ''quota exceeded''"
    by (simp_all add: status_field_def message_field_def error_object_def
        example_Unmarshal_simps)
  have 3: "status_field example_Unmarshal
             ''403 Unauthorized - the client must authenticate itself'' \<noteq> Some FAILED_PRECONDITION"
    "message_field example_Unmarshal
       ''403 Unauthorized - the client must authenticate itself'' = None"
    "strings_Contains ''403 Unauthorized - the client must authenticate itself''
       unauthorized_message"
    by (simp_all add: status_field_def message_field_def error_object_def
        example_Unmarshal_simps unauthorized_message_def)
  have 4: "status_field example_Unmarshal ''connection reset'' \<noteq> Some FAILED_PRECONDITION"
    "message_field example_Unmarshal ''connection reset'' = None"
    "\<not> strings_Contains ''connection reset'' unauthorized_message"
    by (simp_all add: status_field_def message_field_def error_object_def
        example_Unmarshal_simps unauthorized_message_def)
  show ?thesis
    using parseError_case_order [of example_Unmarshal stderr_precondition]
      parseError_case_order [of example_Unmarshal stderr_quota]
      parseError_case_order [of example_Unmarshal
        "''403 Unauthorized - the client must authenticate itself''"]
      parseError_case_order [of example_Unmarshal "''connection reset''"]
      1 2 3 4
    by blast
qed

section \<open>Events of the steps\<close>

lemma calls_append: "calls (xs @ ys) = calls xs @ calls ys"
  by (induction xs rule: calls.induct) simp_all

lemma replies_append: "replies kind (xs @ ys) = replies kind xs @ replies kind ys"
  by (induction kind xs rule: replies.induct) simp_all

lemmas io_defs = io_bind_def io_return_def perform_def log_Printf_def time_Now_def

lemma fail_with_run:
  "fail_with status what err w =
     (Returned (failed status (what @ '': '' @ Error err)), w,
      [Logged (what @ '': '' @ Error err)])"
  by (simp add: fail_with_def io_defs)

text \<open>
  A run of \<open>backup_check\<close> starts with the listing of \<open>backupExistsInGCS\<close>; when that has no
  error the run ends there, with the status unchanged.
\<close>

lemma backup_check_found:
  assumes "exec h (Command [] [''gsutil'', ''ls'', ''gs://'' @ gcsBucket @ ''/'' @ project @ ''/''
                  @ time_Format_date (now h w) @ ''/'']) w = (r, w1)"
    and "failure r = None"
  shows "backup_check h g status project gcsBucket token retentionDays w =
           (Returned status, w1,
            [Called (Command [] [''gsutil'', ''ls'', ''gs://'' @ gcsBucket @ ''/'' @ project @ ''/''
                @ time_Format_date (now h w) @ ''/'']) r,
             Logged (''Backup for '' @ time_Format_date (now h w) @
                     '' already exists in GCS. Skipping new backup.'')])"
  using assms by (simp add: backup_check_def backupExistsInGCS_def io_defs Let_def)

lemma backup_check_missing:
  assumes "exec h (Command [] [''gsutil'', ''ls'', ''gs://'' @ gcsBucket @ ''/'' @ project @ ''/''
                  @ time_Format_date (now h w) @ ''/'']) w = (r, w1)"
    and "failure r \<noteq> None"
    and "backup_export h g status project gcsBucket token retentionDays
           (time_Format_date (now h w)) w1 = (res, w2, events)"
  shows "backup_check h g status project gcsBucket token retentionDays w =
           (res, w2,
            Called (Command [] [''gsutil'', ''ls'', ''gs://'' @ gcsBucket @ ''/'' @ project @ ''/''
                @ time_Format_date (now h w) @ ''/'']) r # events)"
  using assms by (auto simp: backup_check_def backupExistsInGCS_def io_defs Let_def)

text \<open>
  A run of \<open>backupProject\<close> either leaves before the check, with a status \<open>Failed\<close> and no
  command run, or is a run of \<open>backup_check\<close> after calls to the file system.
\<close>

lemma backupProject_run:
  assumes "backupProject h g project gcsBucket token retentionDays w = (res, w', events)"
  shows "(file_system_only events \<and>
          (\<exists>reason. res = Returned \<lparr>Project = project, Status = ''Failed'', Reason = reason\<rparr>)) \<or>
         (\<exists>before w1 after. file_system_only before \<and> events = before @ after \<and>
            backup_check h g \<lparr>Project = project, Status = ''Complete'', Reason = ''no issue''\<rparr>
              project gcsBucket token retentionDays w1 = (res, w', after))"
proof -
  let ?status = "\<lparr>Project = project, Status = ''Complete'', Reason = ''no issue''\<rparr>"
  have create: "\<And>w0 res0 w0' events0.
      backup_create h g ?status project gcsBucket token retentionDays w0 = (res0, w0', events0) \<Longrightarrow>
      (file_system_only events0 \<and>
        (\<exists>reason. res0 = Returned \<lparr>Project = project, Status = ''Failed'', Reason = reason\<rparr>)) \<or>
      (\<exists>r w1 after. events0 = Called (OsMkdirAll apigeeBackupDir) r # after \<and>
          backup_check h g ?status project gcsBucket token retentionDays w1 = (res0, w0', after))"
    by (auto simp: backup_create_def io_defs fail_with_run failed_def file_system_only_def
        split: prod.splits option.splits)
  obtain r0 w0 where stat: "exec h (OsStat apigeeBackupDir) w = (r0, w0)"
    by (cases "exec h (OsStat apigeeBackupDir) w")
  show ?thesis
  proof (cases "os_IsNotExist (failure r0)")
    case True
    with assms stat obtain ev1 where
      ev: "events = Called (OsStat apigeeBackupDir) r0 # ev1" and
      run: "backup_create h g ?status project gcsBucket token retentionDays w0 = (res, w', ev1)"
      by (auto simp: backupProject_def io_defs Let_def split: prod.splits)
    from create [OF run] show ?thesis
    proof
      assume "file_system_only ev1 \<and>
        (\<exists>reason. res = Returned \<lparr>Project = project, Status = ''Failed'', Reason = reason\<rparr>)"
      with ev show ?thesis by (auto simp: file_system_only_def)
    next
      assume "\<exists>r w1 after. ev1 = Called (OsMkdirAll apigeeBackupDir) r # after \<and>
          backup_check h g ?status project gcsBucket token retentionDays w1 = (res, w', after)"
      then obtain r w1 after where
        "ev1 = Called (OsMkdirAll apigeeBackupDir) r # after"
        "backup_check h g ?status project gcsBucket token retentionDays w1 = (res, w', after)"
        by blast
      with ev have "file_system_only [Called (OsStat apigeeBackupDir) r0,
            Called (OsMkdirAll apigeeBackupDir) r] \<and>
          events = [Called (OsStat apigeeBackupDir) r0,
            Called (OsMkdirAll apigeeBackupDir) r] @ after \<and>
          backup_check h g ?status project gcsBucket token retentionDays w1 = (res, w', after)"
        by (simp add: file_system_only_def)
      then show ?thesis by blast
    qed
  next
    case False
    obtain r1 w1 where rm: "exec h (OsRemoveAll apigeeBackupDir) w0 = (r1, w1)"
      by (cases "exec h (OsRemoveAll apigeeBackupDir) w0")
    show ?thesis
    proof (cases "failure r1")
      case (Some err)
      with assms stat rm False show ?thesis
        by (auto simp: backupProject_def io_defs Let_def fail_with_run failed_def
            file_system_only_def split: prod.splits)
    next
      case None
      with assms stat rm False obtain ev1 where
        ev: "events = Called (OsStat apigeeBackupDir) r0 #
               Called (OsRemoveAll apigeeBackupDir) r1 # ev1" and
        run: "backup_create h g ?status project gcsBucket token retentionDays w1 = (res, w', ev1)"
        by (auto simp: backupProject_def io_defs Let_def split: prod.splits)
      from create [OF run] show ?thesis
      proof
        assume "file_system_only ev1 \<and>
          (\<exists>reason. res = Returned \<lparr>Project = project, Status = ''Failed'', Reason = reason\<rparr>)"
        with ev show ?thesis by (auto simp: file_system_only_def)
      next
        assume "\<exists>r w2 after. ev1 = Called (OsMkdirAll apigeeBackupDir) r # after \<and>
            backup_check h g ?status project gcsBucket token retentionDays w2 = (res, w', after)"
        then obtain r w2 after where
          "ev1 = Called (OsMkdirAll apigeeBackupDir) r # after"
          "backup_check h g ?status project gcsBucket token retentionDays w2 = (res, w', after)"
          by blast
        with ev have "file_system_only [Called (OsStat apigeeBackupDir) r0,
              Called (OsRemoveAll apigeeBackupDir) r1,
              Called (OsMkdirAll apigeeBackupDir) r] \<and>
            events = [Called (OsStat apigeeBackupDir) r0,
              Called (OsRemoveAll apigeeBackupDir) r1,
              Called (OsMkdirAll apigeeBackupDir) r] @ after \<and>
            backup_check h g ?status project gcsBucket token retentionDays w2 = (res, w', after)"
          by (simp add: file_system_only_def)
        then show ?thesis by blast
      qed
    qed
  qed
qed

lemma file_system_only_replies:
  assumes "file_system_only events"
  shows "replies is_listing events = []" and "replies is_export events = []"
    and "\<forall>c \<in> set (calls events).
           \<not> is_export c \<and> \<not> is_archive c \<and> \<not> is_upload c \<and> \<not> is_notification c
           \<and> \<not> is_listing c"
proof -
  have "file_system_only events \<Longrightarrow>
        replies is_listing events = [] \<and> replies is_export events = []"
  proof (induction events)
    case Nil
    then show ?case by simp
  next
    case (Cons e events)
    then show ?case
      by (cases e) (auto simp: file_system_only_def is_listing_def)
  qed
  with assms show "replies is_listing events = []" and "replies is_export events = []"
    by simp_all
  from assms show "\<forall>c \<in> set (calls events).
           \<not> is_export c \<and> \<not> is_archive c \<and> \<not> is_upload c \<and> \<not> is_notification c
           \<and> \<not> is_listing c"
    by (auto simp: file_system_only_def is_upload_def is_listing_def)
qed

section \<open>A backup of today that is found\<close>

text \<open>
  C2. When the check for a backup of today returns true, the status of the project is
  Complete with the reason "no issue", and the run of the project has no export, no archive,
  no upload and no notification.
\<close>

theorem probe_found_skips:
  assumes run: "backupProject h g project gcsBucket token retentionDays w = (res, w', events)"
    and found: "probe_found events"
  shows "res = Returned \<lparr>Project = project, Status = ''Complete'', Reason = ''no issue''\<rparr> \<and>
         (\<forall>c \<in> set (calls events).
            \<not> is_export c \<and> \<not> is_archive c \<and> \<not> is_upload c \<and> \<not> is_notification c)"
proof -
  let ?status = "\<lparr>Project = project, Status = ''Complete'', Reason = ''no issue''\<rparr>"
  from found have listed: "replies is_listing events \<noteq> []"
    by (auto simp: probe_found_def)
  with backupProject_run [OF run] file_system_only_replies(1) [of events]
  obtain before w1 after where
    before: "file_system_only before" and events: "events = before @ after" and
    check: "backup_check h g ?status project gcsBucket token retentionDays w1 = (res, w', after)"
    by blast
  let ?probe = "Command [] [''gsutil'', ''ls'', ''gs://'' @ gcsBucket @ ''/'' @ project @ ''/''
                  @ time_Format_date (now h w1) @ ''/'']"
  obtain r w2 where probe: "exec h ?probe w1 = (r, w2)"
    by (cases "exec h ?probe w1")
  have "failure r = None"
  proof (rule ccontr)
    assume missing: "failure r \<noteq> None"
    obtain res2 w3 events2 where
      "backup_export h g ?status project gcsBucket token retentionDays
         (time_Format_date (now h w1)) w2 = (res2, w3, events2)"
      by (cases "backup_export h g ?status project gcsBucket token retentionDays
         (time_Format_date (now h w1)) w2")
    from backup_check_missing [OF probe missing this] check
    have "after = Called ?probe r # events2" by simp
    with events file_system_only_replies(1) [OF before]
    have "replies is_listing events = r # replies is_listing events2"
      by (simp add: replies_append is_listing_def)
    with found missing show False
      by (simp add: probe_found_def)
  qed
  from backup_check_found [OF probe this] check
  have res: "res = Returned ?status" and
    after: "calls after = [?probe]"
    by auto
  from file_system_only_replies(3) [OF before] events after
  have "\<forall>c \<in> set (calls events).
          \<not> is_export c \<and> \<not> is_archive c \<and> \<not> is_upload c \<and> \<not> is_notification c"
    by (auto simp: calls_append is_upload_def)
  with res show ?thesis by simp
qed

theorem probe_found_skips_witness:
  "probe_found
     (snd (snd (backupProject (fixed_host (\<lambda>c. ok) noon_2024_03_01 example_Unmarshal)
                  both_sinks ''proj-a'' ''bucket'' ''token'' 7 ()))) \<and>
   fst (backupProject (fixed_host (\<lambda>c. ok) noon_2024_03_01 example_Unmarshal)
          both_sinks ''proj-a'' ''bucket'' ''token'' 7 ()) =
     Returned \<lparr>Project = ''proj-a'', Status = ''Complete'', Reason = ''no issue''\<rparr> \<and>
   filter (\<lambda>c. is_export c \<or> is_archive c \<or> is_upload c \<or> is_notification c)
     (calls (snd (snd (backupProject (fixed_host (\<lambda>c. ok) noon_2024_03_01 example_Unmarshal)
                         both_sinks ''proj-a'' ''bucket'' ''token'' 7 ())))) = []"
proof -
  obtain res w' events where
    run: "backupProject (fixed_host (\<lambda>c. ok) noon_2024_03_01 example_Unmarshal)
            both_sinks ''proj-a'' ''bucket'' ''token'' 7 () = (res, w', events)"
    by (cases "backupProject (fixed_host (\<lambda>c. ok) noon_2024_03_01 example_Unmarshal)
            both_sinks ''proj-a'' ''bucket'' ''token'' 7 ()")
  have "replies is_listing
     (snd (snd (backupProject (fixed_host (\<lambda>c. ok) noon_2024_03_01 example_Unmarshal)
                  both_sinks ''proj-a'' ''bucket'' ''token'' 7 ()))) = [ok]"
    by (simp add: backupProject_def backup_create_def backup_check_def backupExistsInGCS_def
        io_defs fixed_host_def ok_def is_listing_def Let_def)
  with run have found: "probe_found events"
    by (simp add: probe_found_def ok_def)
  from probe_found_skips [OF run found] run found show ?thesis
    by (simp add: filter_empty_conv)
qed

section \<open>Runs of the later steps\<close>

lemma io_bind_elim:
  assumes "io_bind m k w = (y, w2, events)"
  obtains x w1 events1 events2 where
    "m w = (x, w1, events1)" "k x w1 = (y, w2, events2)" "events = events1 @ events2"
  using assms by (auto simp: io_bind_def split: prod.splits)

lemma sendDiscordNotification_run:
  "\<exists>w1 sent. sendDiscordNotification h g project date status reason w = ((), w1, sent) \<and>
     calls sent = (if webhookURL g = [] then []
                   else [HttpPost (webhookURL g) (discord_message g project date status reason)])"
  by (auto simp: sendDiscordNotification_def io_defs split: prod.splits option.splits)

lemma sendWorkspaceNotification_run:
  "\<exists>w1 sent. sendWorkspaceNotification h g project dataset status reason w = ((), w1, sent) \<and>
     calls sent = (if workspaceWebhookURL g = [] then []
                   else [HttpPost (workspaceWebhookURL g)
                           (workspace_message (time_Format_date (now h w)) project dataset
                              status reason)])"
  by (auto simp: sendWorkspaceNotification_def io_defs split: prod.splits option.splits)

text \<open>The two notifications of a project, one after the other, and what follows them.\<close>

lemma notify_run:
  assumes "io_bind (sendDiscordNotification h g project date status reason)
             (\<lambda>u. io_bind (sendWorkspaceNotification h g project (''apigee-'' @ project)
                             status reason) k) w = (res, w', events)"
  obtains sent rest w1 date' where
    "events = sent @ rest" "k () w1 = (res, w', rest)"
    "calls sent = project_notifications g project date date' status reason"
proof -
  from assms obtain u1 wa sent1 rest1 where
    d: "sendDiscordNotification h g project date status reason w = (u1, wa, sent1)" and
    r1: "io_bind (sendWorkspaceNotification h g project (''apigee-'' @ project) status reason) k wa
           = (res, w', rest1)" and
    e1: "events = sent1 @ rest1"
    by (rule io_bind_elim)
  from r1 obtain u2 wb sent2 rest2 where
    s: "sendWorkspaceNotification h g project (''apigee-'' @ project) status reason wa
          = (u2, wb, sent2)" and
    r2: "k u2 wb = (res, w', rest2)" and
    e2: "rest1 = sent2 @ rest2"
    by (rule io_bind_elim)
  from d sendDiscordNotification_run [of h g project date status reason w]
  have c1: "calls sent1 = (if webhookURL g = [] then []
              else [HttpPost (webhookURL g) (discord_message g project date status reason)])"
    by auto
  from s sendWorkspaceNotification_run [of h g project "''apigee-'' @ project" status reason wa]
  have c2: "calls sent2 = (if workspaceWebhookURL g = [] then []
              else [HttpPost (workspaceWebhookURL g)
                      (workspace_message (time_Format_date (now h wa)) project
                         (''apigee-'' @ project) status reason)])"
    by auto
  from c1 c2 have "calls (sent1 @ sent2) =
      project_notifications g project date (time_Format_date (now h wa)) status reason"
    by (simp add: calls_append project_notifications_def)
  moreover from e1 e2 have "events = (sent1 @ sent2) @ rest2" by simp
  moreover from r2 have "k () wb = (res, w', rest2)" by simp
  ultimately show thesis by (rule that [rotated 2])
qed

lemma project_notifications_kind:
  "\<forall>c \<in> set (project_notifications g project date date' status reason).
     is_notification c \<and> \<not> is_export c \<and> \<not> is_archive c \<and> \<not> is_upload c \<and> \<not> is_listing c"
  by (simp add: project_notifications_def is_upload_def is_listing_def)

lemma replies_none:
  "\<forall>c \<in> set (calls events). \<not> kind c \<Longrightarrow> replies kind events = []"
  by (induction kind events rule: replies.induct) simp_all

text \<open>
  The retention step: its listing comes first; when the listing fails the step ends with the
  status \<open>Failed\<close> and one line in the log.
\<close>

lemma backup_cleanup_run:
  assumes "backup_cleanup h status gcsBucket retentionDays ENV w = (res, w', events)"
  obtains r rest where
    "events = Called (Command [] [''gsutil'', ''ls'', ''gs://'' @ gcsBucket @ ''/'' @ ENV @ ''/'']) r
               # rest"
    "failure r = None \<or>
     (\<exists>err. failure r = Some err \<and>
        rest = [Logged (''Failed to clean up old backups: failed to list GCS bucket: ''
                        @ Error err)] \<and>
        res = Returned (failed status (''Failed to clean up old backups: failed to list GCS bucket: ''
                        @ Error err)))"
  using assms
  by (auto simp: backup_cleanup_def cleanupOldBackups_def io_defs fail_with_run
      split: prod.splits option.splits result.splits)

lemma zipFolder_run:
  assumes "exec h (Command sourceDir [''zip'', ''-r'', zipFile, ''.'', ''-i'', ''*'']) w = (r, w1)"
  shows "zipFolder h sourceDir zipFile w =
           (failure r, w1, [Called (Command sourceDir [''zip'', ''-r'', zipFile, ''.'', ''-i'', ''*'']) r])"
  using assms by (simp add: zipFolder_def io_defs)

lemma uploadToGCS_run:
  assumes "exec h (Command [] [''gsutil'', ''cp'', sourceFile,
             ''gs://'' @ gcsBucket @ ''/'' @ env @ ''/'' @ filepath_Base sourceFile]) w = (r, w1)"
  shows "uploadToGCS h gcsBucket sourceFile env w =
           (failure r, w1, [Called (Command [] [''gsutil'', ''cp'', sourceFile,
             ''gs://'' @ gcsBucket @ ''/'' @ env @ ''/'' @ filepath_Base sourceFile]) r])"
  using assms by (simp add: uploadToGCS_def io_defs Let_def)

text \<open>
  The archive and upload steps: the archive command comes first; after an archive without
  error the upload command; after an upload without error the notifications of the success
  and then the retention step.
\<close>

lemma backup_archive_run:
  assumes "backup_archive h g status project gcsBucket retentionDays today dateFolder exportFolder w
             = (res, w', events)"
  obtains (archive_failed) cz rz err where
      "events = [Called cz rz, Logged (''Failed to zip folder: '' @ Error err)]"
      "is_archive cz" "failure rz = Some err"
      "res = Returned (failed status (''Failed to zip folder: '' @ Error err))"
    | (upload_failed) cz rz cu ru err where
      "events = [Called cz rz, Called cu ru,
                 Logged (''Failed to upload backup to GCS: '' @ Error err)]"
      "is_archive cz" "failure rz = None" "is_upload cu" "failure ru = Some err"
      "res = Returned (failed status (''Failed to upload backup to GCS: '' @ Error err))"
    | (uploaded) cz rz cu ru sent date' w1 rest where
      "events = Called cz rz # Called cu ru # sent @ rest"
      "is_archive cz" "failure rz = None" "is_upload cu" "failure ru = None"
      "calls sent = project_notifications g project today date' ''Complete'' ''no issue''"
      "backup_cleanup h status gcsBucket retentionDays project w1 = (res, w', rest)"
proof -
  let ?zipFile = "filepath_Join dateFolder (''backup_'' @ project @ ''_'' @ today @ ''.zip'')"
  let ?cz = "Command exportFolder [''zip'', ''-r'', ?zipFile, ''.'', ''-i'', ''*'']"
  let ?cu = "Command [] [''gsutil'', ''cp'', ?zipFile,
               ''gs://'' @ gcsBucket @ ''/'' @ project @ ''/'' @ filepath_Base ?zipFile]"
  have kinds: "is_archive ?cz" "is_upload ?cu"
    by (simp_all add: is_upload_def)
  obtain rz wz where z: "exec h ?cz w = (rz, wz)"
    by (cases "exec h ?cz w")
  from assms obtain zipped wa e1 rest where
    "zipFolder h exportFolder ?zipFile w = (zipped, wa, e1)" and
    after_zip: "(case zipped of
         Some err \<Rightarrow> fail_with status ''Failed to zip folder'' err
       | None \<Rightarrow>
           io_bind (uploadToGCS h gcsBucket ?zipFile project)
             (\<lambda>uploaded. case uploaded of
                Some err \<Rightarrow> fail_with status ''Failed to upload backup to GCS'' err
              | None \<Rightarrow>
                  io_bind (sendDiscordNotification h g project today ''Complete'' ''no issue'')
                    (\<lambda>u. io_bind
                       (sendWorkspaceNotification h g project (''apigee-'' @ project)
                          ''Complete'' ''no issue'')
                       (\<lambda>u. backup_cleanup h status gcsBucket retentionDays project)))) wa
        = (res, w', rest)" and
    "events = e1 @ rest"
    unfolding backup_archive_def Let_def by (rule io_bind_elim)
  with zipFolder_run [OF z] have
    zipped: "zipped = failure rz" "wa = wz" and ev: "events = Called ?cz rz # rest"
    by simp_all
  show thesis
  proof (cases "failure rz")
    case (Some err)
    with after_zip zipped have "rest = [Logged (''Failed to zip folder: '' @ Error err)]" and
      failed: "res = Returned (failed status (''Failed to zip folder: '' @ Error err))"
      by (simp_all add: fail_with_run)
    with ev have "events = [Called ?cz rz, Logged (''Failed to zip folder: '' @ Error err)]"
      by simp
    from this kinds(1) Some failed show thesis by (rule archive_failed)
  next
    case None
    obtain ru wu where u: "exec h ?cu wz = (ru, wu)"
      by (cases "exec h ?cu wz")
    from after_zip zipped None have
      "io_bind (uploadToGCS h gcsBucket ?zipFile project)
             (\<lambda>uploaded. case uploaded of
                Some err \<Rightarrow> fail_with status ''Failed to upload backup to GCS'' err
              | None \<Rightarrow>
                  io_bind (sendDiscordNotification h g project today ''Complete'' ''no issue'')
                    (\<lambda>u. io_bind
                       (sendWorkspaceNotification h g project (''apigee-'' @ project)
                          ''Complete'' ''no issue'')
                       (\<lambda>u. backup_cleanup h status gcsBucket retentionDays project))) wz
        = (res, w', rest)"
      by (simp only: zipped None option.case)
    then obtain uploaded wb e2 rest2 where
      "uploadToGCS h gcsBucket ?zipFile project wz = (uploaded, wb, e2)" and
      after_up: "(case uploaded of
            Some err \<Rightarrow> fail_with status ''Failed to upload backup to GCS'' err
          | None \<Rightarrow>
              io_bind (sendDiscordNotification h g project today ''Complete'' ''no issue'')
                (\<lambda>u. io_bind
                   (sendWorkspaceNotification h g project (''apigee-'' @ project)
                      ''Complete'' ''no issue'')
                   (\<lambda>u. backup_cleanup h status gcsBucket retentionDays project))) wb
          = (res, w', rest2)" and
      "rest = e2 @ rest2"
      by (rule io_bind_elim)
    with uploadToGCS_run [OF u] have
      up: "uploaded = failure ru" "wb = wu" and r: "rest = Called ?cu ru # rest2"
      by simp_all
    show thesis
    proof (cases "failure ru")
      case (Some err)
      with after_up up have
        "rest2 = [Logged (''Failed to upload backup to GCS: '' @ Error err)]" and
        failed: "res = Returned (failed status (''Failed to upload backup to GCS: '' @ Error err))"
        by (simp_all add: fail_with_run)
      with ev r have "events = [Called ?cz rz, Called ?cu ru,
                 Logged (''Failed to upload backup to GCS: '' @ Error err)]"
        by simp
      from this kinds(1) None kinds(2) Some failed show thesis by (rule upload_failed)
    next
      case no_err: None
      with after_up up have
        "io_bind (sendDiscordNotification h g project today ''Complete'' ''no issue'')
              (\<lambda>u. io_bind
                 (sendWorkspaceNotification h g project (''apigee-'' @ project)
                    ''Complete'' ''no issue'')
                 (\<lambda>u. backup_cleanup h status gcsBucket retentionDays project)) wu
            = (res, w', rest2)"
        by (simp only: up no_err option.case)
      then obtain sent rest3 w1 date' where
        r2: "rest2 = sent @ rest3" and
        cleanup: "backup_cleanup h status gcsBucket retentionDays project w1 = (res, w', rest3)" and
        sent: "calls sent = project_notifications g project today date' ''Complete'' ''no issue''"
        by (rule notify_run)
      from r ev r2 have "events = Called ?cz rz # Called ?cu ru # sent @ rest3"
        by simp
      from this kinds(1) None kinds(2) no_err sent cleanup show thesis by (rule uploaded)
    qed
  qed
qed

text \<open>
  The export step: two folders are made, then the export command runs. Without an error the
  archive step follows. With an error the classified message decides: without the text
  \<open>FAILED_PRECONDITION\<close> in it the notifications of the failure are sent and the step ends;
  with it the archive step follows.
\<close>

lemma backup_export_run:
  assumes "backup_export h g status project gcsBucket token retentionDays today w
             = (res, w', events)"
  shows "(file_system_only events \<and> (\<exists>reason. res = Returned (failed status reason))) \<or>
         (\<exists>before ce re rest. events = before @ Called ce re # rest \<and>
            file_system_only before \<and> is_export ce \<and>
            after_export h g status project gcsBucket retentionDays today re rest res w')"
proof -
  let ?dateFolder = "filepath_Join apigeeBackupDir today"
  let ?exportFolder = "filepath_Join apigeeBackupDir ''export''"
  let ?ce = "Command [] [''bash'', ''-c'', ''cd '' @ ?exportFolder @
               '' && apigeecli organizations export --all -o '' @ project @ '' -t '' @ token]"
  let ?archive = "backup_archive h g status project gcsBucket retentionDays today
                    ?dateFolder ?exportFolder"
  obtain r1 w1 where m1: "exec h (OsMkdirAll ?dateFolder) w = (r1, w1)"
    by (cases "exec h (OsMkdirAll ?dateFolder) w")
  obtain r2 w2 where m2: "exec h (OsMkdirAll ?exportFolder) w1 = (r2, w2)"
    by (cases "exec h (OsMkdirAll ?exportFolder) w1")
  obtain re w3 where ex: "exec h ?ce w2 = (re, w3)"
    by (cases "exec h ?ce w2")
  let ?before = "[Called (OsMkdirAll ?dateFolder) r1, Called (OsMkdirAll ?exportFolder) r2]"
  have before: "file_system_only ?before"
    by (simp add: file_system_only_def)
  have kind: "is_export ?ce" by simp
  let ?msg = "parseError (decode h) (stderr re)"
  show ?thesis
  proof (cases "failure r1")
    case (Some err)
    with assms m1 show ?thesis
      by (auto simp: backup_export_def io_defs fail_with_run Let_def file_system_only_def)
  next
    case made1: None
    show ?thesis
    proof (cases "failure r2")
      case (Some err)
      with assms m1 m2 made1 show ?thesis
        by (auto simp: backup_export_def io_defs fail_with_run Let_def file_system_only_def)
    next
      case made2: None
      show ?thesis
      proof (cases "failure re")
        case None
        with assms m1 m2 ex made1 made2 obtain rest where
          "events = ?before @ Called ?ce re # rest" "?archive w3 = (res, w', rest)"
          by (auto simp: backup_export_def io_defs Let_def split: prod.splits)
        with None before kind show ?thesis unfolding after_export_def by blast
      next
        case (Some err)
        show ?thesis
        proof (cases "strings_Contains ?msg ''FAILED_PRECONDITION''")
          case True
          with assms m1 m2 ex made1 made2 Some obtain rest' where
            "events = ?before @ Called ?ce re #
               Logged (''Failed to execute apigeecli command: '' @ Error err) #
               Logged (''Continuing despite FAILED_PRECONDITION error: '' @ ?msg) # rest'"
            "?archive w3 = (res, w', rest')"
            by (auto simp: backup_export_def io_defs Let_def split: prod.splits)
          with Some True before kind show ?thesis unfolding after_export_def by blast
        next
          case False
          from assms m1 m2 ex made1 made2 Some False obtain rest where
            ev: "events = ?before @ Called ?ce re #
               Logged (''Failed to execute apigeecli command: '' @ Error err) # rest" and
            n: "io_bind (sendDiscordNotification h g project today ''Failed'' ?msg)
               (\<lambda>u. io_bind (sendWorkspaceNotification h g project (''apigee-'' @ project)
                               ''Failed'' ?msg)
                  (\<lambda>u. io_return (Returned (failed status ?msg)))) w3 = (res, w', rest)"
            by (auto simp: backup_export_def Let_def io_bind_def [of "perform h c" for c]
                io_bind_def [of "log_Printf l" for l] perform_def log_Printf_def
                split: prod.splits)
          from n obtain sent rest2 wa date' where
            "rest = sent @ rest2" "io_return (Returned (failed status ?msg)) wa = (res, w', rest2)"
            "calls sent = project_notifications g project today date' ''Failed'' ?msg"
            by (rule notify_run)
          then have "rest = sent" "res = Returned (failed status ?msg)"
            "calls sent = project_notifications g project today date' ''Failed'' ?msg"
            by (auto simp: io_return_def)
          with ev Some False before kind show ?thesis unfolding after_export_def by blast
        qed
      qed
    qed
  qed
qed

section \<open>Runs that get past the check\<close>

text \<open>
  A run of \<open>backupProject\<close> with an export command or with two listings: before the export
  command there are calls to the file system and the one listing of the check.
\<close>

lemma backupProject_export:
  assumes run: "backupProject h g project gcsBucket token retentionDays w = (res, w', events)"
    and past: "replies is_export events \<noteq> [] \<or> length (replies is_listing events) \<ge> 2"
  obtains pre rp ce re rest today where
    "events = pre @ Called ce re # rest"
    "\<forall>c \<in> set (calls pre).
       \<not> is_export c \<and> \<not> is_archive c \<and> \<not> is_upload c \<and> \<not> is_notification c"
    "replies is_listing pre = [rp]"
    "is_export ce"
    "after_export h g \<lparr>Project = project, Status = ''Complete'', Reason = ''no issue''\<rparr>
       project gcsBucket retentionDays today re rest res w'"
proof -
  let ?status = "\<lparr>Project = project, Status = ''Complete'', Reason = ''no issue''\<rparr>"
  from past file_system_only_replies(1,2) [of events]
  have "\<not> file_system_only events" by auto
  with backupProject_run [OF run] obtain before w1 after where
    before: "file_system_only before" and events: "events = before @ after" and
    check: "backup_check h g ?status project gcsBucket token retentionDays w1 = (res, w', after)"
    by blast
  let ?today = "time_Format_date (now h w1)"
  let ?probe = "Command [] [''gsutil'', ''ls'', ''gs://'' @ gcsBucket @ ''/'' @ project @ ''/''
                  @ ?today @ ''/'']"
  have probe_kind: "is_listing ?probe" "\<not> is_export ?probe" "\<not> is_archive ?probe"
    "\<not> is_upload ?probe" "\<not> is_notification ?probe"
    by (simp_all add: is_listing_def is_upload_def)
  obtain rp w2 where probe: "exec h ?probe w1 = (rp, w2)"
    by (cases "exec h ?probe w1")
  obtain res2 w3 events2 where
    export: "backup_export h g ?status project gcsBucket token retentionDays ?today w2
               = (res2, w3, events2)"
    by (cases "backup_export h g ?status project gcsBucket token retentionDays ?today w2")
  have missing: "failure rp \<noteq> None"
  proof
    assume "failure rp = None"
    from backup_check_found [OF probe this] check
    have "after = [Called ?probe rp, Logged (''Backup for '' @ ?today @
                     '' already exists in GCS. Skipping new backup.'')]"
      by simp
    with events file_system_only_replies(1,2) [OF before] probe_kind
    have "replies is_export events = []" "replies is_listing events = [rp]"
      by (simp_all only: replies_append replies.simps append_Nil if_True if_False)
    with past show False by simp
  qed
  from backup_check_missing [OF probe missing export] check
  have after: "after = Called ?probe rp # events2" and
    res2: "res2 = res" "w3 = w'"
    by simp_all
  have "\<not> file_system_only events2"
  proof
    assume fs: "file_system_only events2"
    from events after file_system_only_replies(1,2) [OF before]
      file_system_only_replies(1,2) [OF fs] probe_kind
    have "replies is_export events = []" "replies is_listing events = [rp]"
      by (simp_all only: replies_append replies.simps append_Nil if_True if_False)
    with past show False by simp
  qed
  with backup_export_run [OF export] res2 obtain before2 ce re rest where
    ev2: "events2 = before2 @ Called ce re # rest" and
    before2: "file_system_only before2" and kind: "is_export ce" and
    out: "after_export h g ?status project gcsBucket retentionDays ?today re rest res w'"
    by blast
  let ?pre = "before @ Called ?probe rp # before2"
  from events after ev2 have 1: "events = ?pre @ Called ce re # rest"
    by simp
  from file_system_only_replies(3) [OF before] file_system_only_replies(3) [OF before2] probe_kind
  have 2: "\<forall>c \<in> set (calls ?pre).
       \<not> is_export c \<and> \<not> is_archive c \<and> \<not> is_upload c \<and> \<not> is_notification c"
    by (simp only: calls_append calls.simps set_append set_simps ball_Un ball_simps) blast
  from file_system_only_replies(1) [OF before] file_system_only_replies(1) [OF before2] probe_kind
  have 3: "replies is_listing ?pre = [rp]"
    by (simp only: replies_append replies.simps append_Nil if_True)
  from 1 2 3 kind out show thesis by (rule that)
qed

lemma replies_is_export_after:
  assumes "events = pre @ Called ce re # rest"
    and "\<forall>c \<in> set (calls pre).
       \<not> is_export c \<and> \<not> is_archive c \<and> \<not> is_upload c \<and> \<not> is_notification c"
    and "is_export ce"
  shows "export_reply events = Some re"
proof -
  from assms(2) have "replies is_export pre = []"
    by (intro replies_none) blast
  with assms(1,3) show ?thesis
    by (simp add: export_reply_def replies_append)
qed

section \<open>Values of the examples\<close>

lemma today_noon: "time_Format_date noon_2024_03_01 = ''2024-03-01''"
  by code_simp

lemma parseError_examples:
  "parseError example_Unmarshal stderr_quota = ''quota exceeded''"
  "parseError example_Unmarshal stderr_precondition = precondition_message"
  by (simp_all add: parseError_def example_Unmarshal_simps FAILED_PRECONDITION_def)

lemma example_paths:
  "filepath_Join ''/tmp/apigee_backup'' ''2024-03-01'' = ''/tmp/apigee_backup/2024-03-01''"
  "filepath_Join ''/tmp/apigee_backup'' ''export'' = ''/tmp/apigee_backup/export''"
  "filepath_Join ''/tmp/apigee_backup/2024-03-01'' ''backup_proj-a_2024-03-01.zip''
     = ''/tmp/apigee_backup/2024-03-01/backup_proj-a_2024-03-01.zip''"
  "filepath_Base ''/tmp/apigee_backup/2024-03-01/backup_proj-a_2024-03-01.zip''
     = ''backup_proj-a_2024-03-01.zip''"
  "filepath_Base ''gs://bucket/proj-a/backup_proj-a_2024-03-01.zip''
     = ''backup_proj-a_2024-03-01.zip''"
  "filepath_Base ''gs://bucket/proj-a/backup_proj-a_2024-01-01.zip''
     = ''backup_proj-a_2024-01-01.zip''"
  "filepath_Base ''gs://bucket/proj-a/notes.txt'' = ''notes.txt''"
  by code_simp+

lemma example_dates:
  "time_Parse_date ''2024-03-01'' = Some \<lparr>instant = 1709251200000000000, offset = 0\<rparr>"
  "time_Parse_date ''2024-01-01'' = Some \<lparr>instant = 1704067200000000000, offset = 0\<rparr>"
  "instant noon_2024_03_01 = 1709294400000000000"
  by code_simp+

lemmas run_defs = backupProject_def backup_create_def backup_check_def backup_export_def
  backup_archive_def backup_cleanup_def cleanupOldBackups_def
  backupExistsInGCS_def zipFolder_def uploadToGCS_def
  sendDiscordNotification_def sendWorkspaceNotification_def io_defs fail_with_def failed_def
  store_host_def exit_status_1_def ok_def gsutil_ls_def Let_def apigeeBackupDir_def
  listed_name_def LF_def isOlderThanRetention_def go_slice_def time_Before_def
  time_AddDate_days_def nanos_per_day_def
  today_noon parseError_examples example_paths example_dates

section \<open>An export that fails\<close>

lemma strings_Contains_middle: "strings_Contains (before @ text @ after) text"
proof (induction before)
  case Nil
  have "prefix text (text @ after)" by simp
  then show ?case by (cases "text @ after") auto
next
  case (Cons c before)
  then show ?case by simp
qed

lemma discord_message_mentions:
  "mentions (HttpPost url (discord_message g project date status reason)) project"
  "mentions (HttpPost url (discord_message g project date status reason)) status"
  "mentions (HttpPost url (discord_message g project date status reason)) reason"
proof -
  let ?reason = "if reason = [] then ''no issue'' else reason"
  let ?tags = "if length (tagIDs g) > 0
     then LF @ LF @ strings_Join (map (\<lambda>id. ''<@'' @ id @ ''>'') (tagIDs g)) '' '' else []"
  let ?description = "''**'' @ project @ ''** (`apigee-'' @ project @ ''`) - '' @ status @
     LF @ ''Reason: '' @ ?reason @ ?tags"
  have strings: "?description \<in> set (json_strings (discord_message g project date status reason))"
    by (simp add: discord_message_def Let_def)
  have "strings_Contains ?description project"
    using strings_Contains_middle [of "''**''" project
        "''** (`apigee-'' @ project @ ''`) - '' @ status @ LF @ ''Reason: '' @ ?reason @ ?tags"]
    by simp
  with strings show "mentions (HttpPost url (discord_message g project date status reason)) project"
    unfolding mentions_def by (auto simp del: strings_Contains.simps)
  have "strings_Contains ?description status"
    using strings_Contains_middle [of "''**'' @ project @ ''** (`apigee-'' @ project @ ''`) - ''"
        status "LF @ ''Reason: '' @ ?reason @ ?tags"]
    by simp
  with strings show "mentions (HttpPost url (discord_message g project date status reason)) status"
    unfolding mentions_def by (auto simp del: strings_Contains.simps)
  have "strings_Contains ?description ?reason"
    using strings_Contains_middle [of "''**'' @ project @ ''** (`apigee-'' @ project @ ''`) - '' @
        status @ LF @ ''Reason: ''" ?reason ?tags]
    by simp
  moreover have "reason = [] \<Longrightarrow> strings_Contains ?description reason"
    by (cases ?description) simp_all
  ultimately have "strings_Contains ?description reason"
    by (cases "reason = []") simp_all
  with strings show "mentions (HttpPost url (discord_message g project date status reason)) reason"
    unfolding mentions_def by (auto simp del: strings_Contains.simps)
qed

lemma workspace_message_mentions:
  "mentions (HttpPost url (workspace_message date project dataset status reason)) project"
  "mentions (HttpPost url (workspace_message date project dataset status reason)) status"
  "mentions (HttpPost url (workspace_message date project dataset status reason)) reason"
proof -
  let ?reason = "if reason = [] then ''no issue'' else reason"
  let ?head = "''*Apigee Daily Backup '' @ date @ ''*'' @ LF @ LF @
     ''*| `Project` | `Apigee-Orgs` | `Status` | `Reason` |*'' @ LF @ ''|---|---|---|'' @ LF @ ''| `''"
  let ?message = "?head @ project @ ''` | `'' @ dataset @ ''` | `'' @ status @
     ''` | `'' @ ?reason @ ''` |''"
  have strings: "?message \<in> set (json_strings (workspace_message date project dataset status reason))"
    by (simp add: workspace_message_def Let_def)
  have "strings_Contains ?message project"
    using strings_Contains_middle [of ?head project
        "''` | `'' @ dataset @ ''` | `'' @ status @ ''` | `'' @ ?reason @ ''` |''"]
    by simp
  with strings
  show "mentions (HttpPost url (workspace_message date project dataset status reason)) project"
    unfolding mentions_def by (auto simp del: strings_Contains.simps)
  have "strings_Contains ?message status"
    using strings_Contains_middle [of "?head @ project @ ''` | `'' @ dataset @ ''` | `''" status
        "''` | `'' @ ?reason @ ''` |''"]
    by simp
  with strings
  show "mentions (HttpPost url (workspace_message date project dataset status reason)) status"
    unfolding mentions_def by (auto simp del: strings_Contains.simps)
  have "strings_Contains ?message ?reason"
    using strings_Contains_middle [of "?head @ project @ ''` | `'' @ dataset @ ''` | `'' @ status @
        ''` | `''" ?reason "''` |''"]
    by simp
  moreover have "reason = [] \<Longrightarrow> strings_Contains ?message reason"
    by (cases ?message) simp_all
  ultimately have "strings_Contains ?message reason"
    by (cases "reason = []") simp_all
  with strings
  show "mentions (HttpPost url (workspace_message date project dataset status reason)) reason"
    unfolding mentions_def by (auto simp del: strings_Contains.simps)
qed

text \<open>Each notification of a project names the project, the status and the reason.\<close>

lemma project_notifications_mentions:
  "\<forall>c \<in> set (project_notifications g project date date' status reason).
     mentions c project \<and> mentions c status \<and> mentions c reason"
  by (simp add: project_notifications_def discord_message_mentions workspace_message_mentions)

lemma backup_archive_attempts:
  assumes "backup_archive h g status project gcsBucket retentionDays today dateFolder exportFolder w
             = (res, w', events)"
  shows "\<exists>cz rz. Called cz rz \<in> set events \<and> is_archive cz \<and>
           (failure rz = None \<longrightarrow> (\<exists>c \<in> set (calls events). is_upload c))"
  using assms
proof (cases rule: backup_archive_run)
  case (archive_failed cz rz err)
  then show ?thesis by (intro exI [of _ cz] exI [of _ rz]) simp
next
  case (upload_failed cz rz cu ru err)
  then show ?thesis by (intro exI [of _ cz] exI [of _ rz]) simp
next
  case (uploaded cz rz cu ru sent date' w1 rest)
  then show ?thesis by (intro exI [of _ cz] exI [of _ rz]) simp
qed

lemma is_gsutil_command:
  "is_gsutil sub c \<Longrightarrow> \<exists>dir args. c = Command dir (''gsutil'' # sub # args)"
  by (induction sub c rule: is_gsutil.induct) simp_all

lemma is_export_kind:
  assumes "is_export c"
  shows "\<not> is_archive c" "\<not> is_upload c" "\<not> is_notification c" "\<not> is_listing c"
proof -
  from assms obtain dir args where c: "c = Command dir (''bash'' # args)"
    by (induction c rule: is_export.induct) simp_all
  then show "\<not> is_archive c" "\<not> is_notification c" by simp_all
  from c show "\<not> is_upload c" "\<not> is_listing c"
    using is_gsutil_command [of "''cp''" c] is_gsutil_command [of "''ls''" c]
    by (auto simp: is_upload_def is_listing_def)
qed

text \<open>What a run does after an export command with an error.\<close>

lemma export_error_run:
  assumes run: "backupProject h g project gcsBucket token retentionDays w = (res, w', events)"
    and exported: "export_reply events = Some re"
    and error: "failure re \<noteq> None"
  shows "(strings_Contains (parseError (decode h) (stderr re)) ''FAILED_PRECONDITION'' \<longrightarrow>
            (\<exists>cz rz. Called cz rz \<in> set events \<and> is_archive cz \<and>
               (failure rz = None \<longrightarrow> (\<exists>c \<in> set (calls events). is_upload c)))) \<and>
         (\<not> strings_Contains (parseError (decode h) (stderr re)) ''FAILED_PRECONDITION'' \<longrightarrow>
            res = Returned \<lparr>Project = project, Status = ''Failed'',
                             Reason = parseError (decode h) (stderr re)\<rparr> \<and>
            (\<exists>date date'. filter is_notification (calls events) =
               project_notifications g project date date' ''Failed''
                 (parseError (decode h) (stderr re))) \<and>
            (\<forall>c \<in> set (filter is_notification (calls events)).
               mentions c project \<and> mentions c ''Failed'' \<and>
               mentions c (parseError (decode h) (stderr re))) \<and>
            (\<forall>c \<in> set (calls events). \<not> is_archive c \<and> \<not> is_upload c))"
proof -
  let ?status = "\<lparr>Project = project, Status = ''Complete'', Reason = ''no issue''\<rparr>"
  let ?msg = "parseError (decode h) (stderr re)"
  from exported have "replies is_export events \<noteq> [] \<or> length (replies is_listing events) \<ge> 2"
    by (auto simp: export_reply_def split: list.splits)
  with run obtain pre rp ce re' rest today where
    ev: "events = pre @ Called ce re' # rest" and
    pre: "\<forall>c \<in> set (calls pre).
       \<not> is_export c \<and> \<not> is_archive c \<and> \<not> is_upload c \<and> \<not> is_notification c" and
    kind: "is_export ce" and
    out: "after_export h g ?status project gcsBucket retentionDays today re' rest res w'"
    by (rule backupProject_export)
  from replies_is_export_after [OF ev pre kind] exported have same: "re' = re"
    by simp
  from is_export_kind [OF kind]
  have ce: "\<not> is_archive ce" "\<not> is_upload ce" "\<not> is_notification ce"
    by simp_all
  show ?thesis
  proof (cases "strings_Contains ?msg ''FAILED_PRECONDITION''")
    case True
    with out same error obtain w1 line1 line2 rest' where
      rest: "rest = Logged line1 # Logged line2 # rest'" and
      archive: "backup_archive h g ?status project gcsBucket retentionDays today
            (filepath_Join apigeeBackupDir today)
            (filepath_Join apigeeBackupDir ''export'') w1 = (res, w', rest')"
      unfolding after_export_def by blast
    from backup_archive_attempts [OF archive] obtain cz rz where
      "Called cz rz \<in> set rest'" "is_archive cz"
      "failure rz = None \<longrightarrow> (\<exists>c \<in> set (calls rest'). is_upload c)"
      by (elim exE conjE)
    with ev rest have "Called cz rz \<in> set events \<and> is_archive cz \<and>
        (failure rz = None \<longrightarrow> (\<exists>c \<in> set (calls events). is_upload c))"
      by (auto simp: calls_append)
    then have "\<exists>cz rz. Called cz rz \<in> set events \<and> is_archive cz \<and>
        (failure rz = None \<longrightarrow> (\<exists>c \<in> set (calls events). is_upload c))"
      by (intro exI [of _ cz] exI [of _ rz])
    with True show ?thesis by simp
  next
    case False
    with out same error obtain line sent date' where
      rest: "rest = Logged line # sent" and
      sent: "calls sent = project_notifications g project today date' ''Failed'' ?msg" and
      res: "res = Returned (failed ?status ?msg)"
      unfolding after_export_def by blast
    from ev rest sent have calls: "calls events =
        calls pre @ ce # project_notifications g project today date' ''Failed'' ?msg"
      by (simp add: calls_append)
    from pre have "filter is_notification (calls pre) = []"
      by (simp add: filter_empty_conv)
    moreover from project_notifications_kind [of g project today date' "''Failed''" ?msg]
    have "filter is_notification (project_notifications g project today date' ''Failed'' ?msg)
          = project_notifications g project today date' ''Failed'' ?msg"
      by (simp add: filter_id_conv)
    ultimately have posted: "filter is_notification (calls events) =
        project_notifications g project today date' ''Failed'' ?msg"
      using calls ce by simp
    then have "\<exists>date date'. filter is_notification (calls events) =
        project_notifications g project date date' ''Failed'' ?msg"
      by (intro exI [of _ today] exI [of _ date'])
    moreover from posted project_notifications_mentions [of g project today date' "''Failed''" ?msg]
    have "\<forall>c \<in> set (filter is_notification (calls events)).
            mentions c project \<and> mentions c ''Failed'' \<and> mentions c ?msg"
      by (simp only:)
    moreover from calls pre ce
      project_notifications_kind [of g project today date' "''Failed''" ?msg]
    have "\<forall>c \<in> set (calls events). \<not> is_archive c \<and> \<not> is_upload c"
      by auto
    moreover from res have "res = Returned \<lparr>Project = project, Status = ''Failed'', Reason = ?msg\<rparr>"
      by (simp add: failed_def)
    ultimately show ?thesis using False by simp
  qed
qed


text \<open>
  C4. When the export command exits with an error: if the classified message indicates the
  precondition class (it holds the text \<open>FAILED_PRECONDITION\<close>), the archive step is run, and
  the upload step after an archive without error; for any other classified message the
  status of the project is Failed with that message as the reason, the notification of the
  failure goes to each configured sink, and neither archive nor upload is attempted.
\<close>

theorem export_error_handling:
  assumes run: "backupProject h g project gcsBucket token retentionDays w = (res, w', events)"
    and exported: "export_reply events = Some re"
    and error: "failure re \<noteq> None"
  shows "(strings_Contains (parseError (decode h) (stderr re)) ''FAILED_PRECONDITION'' \<longrightarrow>
            (\<exists>cz rz. Called cz rz \<in> set events \<and> is_archive cz \<and>
               (failure rz = None \<longrightarrow> (\<exists>c \<in> set (calls events). is_upload c)))) \<and>
         (\<not> strings_Contains (parseError (decode h) (stderr re)) ''FAILED_PRECONDITION'' \<longrightarrow>
            res = Returned \<lparr>Project = project, Status = ''Failed'',
                             Reason = parseError (decode h) (stderr re)\<rparr> \<and>
            (\<exists>date date'. filter is_notification (calls events) =
               project_notifications g project date date' ''Failed''
                 (parseError (decode h) (stderr re))) \<and>
            (\<forall>c \<in> set (filter is_notification (calls events)).
               mentions c project \<and> mentions c ''Failed'' \<and>
               mentions c (parseError (decode h) (stderr re))) \<and>
            (\<forall>c \<in> set (calls events). \<not> is_archive c \<and> \<not> is_upload c))"
  using run exported error by (rule export_error_run)

theorem export_error_handling_witness:
  "fst (backupProject quota_host both_sinks ''proj-a'' ''bucket'' ''token'' 30 []) =
     Returned \<lparr>Project = ''proj-a'', Status = ''Failed'', Reason = ''quota exceeded''\<rparr> \<and>
   filter (\<lambda>c. is_archive c \<or> is_upload c)
     (calls (snd (snd (backupProject quota_host both_sinks ''proj-a'' ''bucket'' ''token'' 30 []))))
     = [] \<and>
   filter is_notification
     (calls (snd (snd (backupProject quota_host both_sinks ''proj-a'' ''bucket'' ''token'' 30 []))))
     = [HttpPost ''https://discord.example/hook''
          (JObject
            [(''content'', JString []),
             (''embeds'', JArray
               [JObject
                 [(''title'', JString ''Apigee Backup Notification 2024-03-01''),
                  (''description'', JString
                     (''**proj-a** (`apigee-proj-a`) - Failed'' @ LF @ ''Reason: quota exceeded'')),
                  (''color'', JNumber ''16711680''),
                  (''footer'', JObject [(''text'', JString ''Note : Project - Apigee - Status'')])]])]),
        HttpPost ''https://chat.example/hook''
          (JObject
            [(''text'', JString
               (''*Apigee Daily Backup 2024-03-01*'' @ LF @ LF @
                ''*| `Project` | `Apigee-Orgs` | `Status` | `Reason` |*'' @ LF @
                ''|---|---|---|'' @ LF @
                ''| `proj-a` | `apigee-proj-a` | `Failed` | `quota exceeded` |''))])] \<and>
   filter (\<lambda>c. is_archive c \<or> is_upload c)
     (calls (snd (snd (backupProject precondition_host both_sinks ''proj-a'' ''bucket'' ''token''
                         30 []))))
     = [Command ''/tmp/apigee_backup/export'' [''zip'', ''-r'',
          ''/tmp/apigee_backup/2024-03-01/backup_proj-a_2024-03-01.zip'', ''.'', ''-i'', ''*''],
        Command [] [''gsutil'', ''cp'', ''/tmp/apigee_backup/2024-03-01/backup_proj-a_2024-03-01.zip'',
          ''gs://bucket/proj-a/backup_proj-a_2024-03-01.zip'']]"
proof -
  obtain res w' events where
    run: "backupProject quota_host both_sinks ''proj-a'' ''bucket'' ''token'' 30 []
            = (res, w', events)"
    by (cases "backupProject quota_host both_sinks ''proj-a'' ''bucket'' ''token'' 30 []")
  have "export_reply
     (snd (snd (backupProject quota_host both_sinks ''proj-a'' ''bucket'' ''token'' 30 [])))
     = Some (exit_status_1 stderr_quota)"
    by (simp add: run_defs quota_host_def both_sinks_def export_reply_def)
  with run have exported: "export_reply events = Some (exit_status_1 stderr_quota)"
    by simp
  have error: "failure (exit_status_1 stderr_quota) \<noteq> None"
    by (simp add: exit_status_1_def)
  have other: "\<not> strings_Contains
      (parseError (decode quota_host) (stderr (exit_status_1 stderr_quota))) ''FAILED_PRECONDITION''"
    by (simp add: quota_host_def store_host_def exit_status_1_def parseError_examples)
  from export_error_handling [OF run exported error] other
  have "res = Returned \<lparr>Project = ''proj-a'', Status = ''Failed'', Reason = ''quota exceeded''\<rparr>"
    and "\<forall>c \<in> set (calls events). \<not> is_archive c \<and> \<not> is_upload c"
    by (simp_all add: quota_host_def store_host_def exit_status_1_def parseError_examples)
  with run have
    "fst (backupProject quota_host both_sinks ''proj-a'' ''bucket'' ''token'' 30 []) =
       Returned \<lparr>Project = ''proj-a'', Status = ''Failed'', Reason = ''quota exceeded''\<rparr>"
    "filter (\<lambda>c. is_archive c \<or> is_upload c)
       (calls (snd (snd (backupProject quota_host both_sinks ''proj-a'' ''bucket'' ''token'' 30 []))))
       = []"
    by (simp_all add: filter_empty_conv)
  moreover have "filter is_notification
     (calls (snd (snd (backupProject quota_host both_sinks ''proj-a'' ''bucket'' ''token'' 30 []))))
     = [HttpPost ''https://discord.example/hook''
          (JObject
            [(''content'', JString []),
             (''embeds'', JArray
               [JObject
                 [(''title'', JString ''Apigee Backup Notification 2024-03-01''),
                  (''description'', JString
                     (''**proj-a** (`apigee-proj-a`) - Failed'' @ LF @ ''Reason: quota exceeded'')),
                  (''color'', JNumber ''16711680''),
                  (''footer'', JObject [(''text'', JString ''Note : Project - Apigee - Status'')])]])]),
        HttpPost ''https://chat.example/hook''
          (JObject
            [(''text'', JString
               (''*Apigee Daily Backup 2024-03-01*'' @ LF @ LF @
                ''*| `Project` | `Apigee-Orgs` | `Status` | `Reason` |*'' @ LF @
                ''|---|---|---|'' @ LF @
                ''| `proj-a` | `apigee-proj-a` | `Failed` | `quota exceeded` |''))])]"
    by (simp add: run_defs quota_host_def both_sinks_def discord_message_def
        workspace_message_def)
  moreover have "filter (\<lambda>c. is_archive c \<or> is_upload c)
     (calls (snd (snd (backupProject precondition_host both_sinks ''proj-a'' ''bucket'' ''token''
                         30 []))))
     = [Command ''/tmp/apigee_backup/export'' [''zip'', ''-r'',
          ''/tmp/apigee_backup/2024-03-01/backup_proj-a_2024-03-01.zip'', ''.'', ''-i'', ''*''],
        Command [] [''gsutil'', ''cp'', ''/tmp/apigee_backup/2024-03-01/backup_proj-a_2024-03-01.zip'',
          ''gs://bucket/proj-a/backup_proj-a_2024-03-01.zip'']]"
    by (simp add: run_defs precondition_host_def both_sinks_def precondition_message_def
        is_upload_def)
  ultimately show ?thesis by simp
qed

section \<open>The test that decides to continue\<close>

lemma parseError_undecoded:
  "U s = None \<Longrightarrow> parseError U s = parseError_raw s"
  by (simp add: parseError_def)

lemma unauthorized_message_no_token:
  "\<not> strings_Contains unauthorized_message ''FAILED_PRECONDITION''"
  by (simp add: unauthorized_message_def)

text \<open>
  C10, as amended. When the export command ends with an error, the run continues to the
  archive step (and to the upload step after an archive without error) exactly when the
  classified message holds the text \<open>FAILED_PRECONDITION\<close> somewhere; otherwise the status of
  the project is Failed with the classified message as the reason and nothing is archived or
  uploaded. So a text that the decoder rejects continues when it holds that token and not the
  unauthorized sentence; when it holds the unauthorized sentence it is classified as
  unauthorized and the project fails with that reason, with or without the token.
\<close>

theorem continue_is_substring_test:
  assumes run: "backupProject h g project gcsBucket token retentionDays w = (res, w', events)"
    and exported: "export_reply events = Some re"
    and error: "failure re \<noteq> None"
  shows "((\<exists>c \<in> set (calls events). is_archive c) \<longleftrightarrow>
            strings_Contains (parseError (decode h) (stderr re)) ''FAILED_PRECONDITION'') \<and>
         (strings_Contains (parseError (decode h) (stderr re)) ''FAILED_PRECONDITION'' \<longrightarrow>
            (\<exists>cz rz. Called cz rz \<in> set events \<and> is_archive cz \<and>
               (failure rz = None \<longrightarrow> (\<exists>c \<in> set (calls events). is_upload c)))) \<and>
         (\<not> strings_Contains (parseError (decode h) (stderr re)) ''FAILED_PRECONDITION'' \<longrightarrow>
            res = Returned \<lparr>Project = project, Status = ''Failed'',
                             Reason = parseError (decode h) (stderr re)\<rparr> \<and>
            (\<forall>c \<in> set (calls events). \<not> is_archive c \<and> \<not> is_upload c)) \<and>
         (decode h (stderr re) = None \<longrightarrow>
            (if strings_Contains (stderr re) unauthorized_message
             then parseError (decode h) (stderr re) = unauthorized_message \<and>
                  res = Returned \<lparr>Project = project, Status = ''Failed'',
                                   Reason = unauthorized_message\<rparr> \<and>
                  (\<forall>c \<in> set (calls events). \<not> is_archive c \<and> \<not> is_upload c)
             else parseError (decode h) (stderr re) = stderr re \<and>
                  ((\<exists>c \<in> set (calls events). is_archive c) \<longleftrightarrow>
                     strings_Contains (stderr re) ''FAILED_PRECONDITION'')))"
proof -
  let ?msg = "parseError (decode h) (stderr re)"
  note cases = export_error_run [OF run exported error]
  have continue: "strings_Contains ?msg ''FAILED_PRECONDITION'' \<longrightarrow>
            (\<exists>cz rz. Called cz rz \<in> set events \<and> is_archive cz \<and>
               (failure rz = None \<longrightarrow> (\<exists>c \<in> set (calls events). is_upload c)))"
    using cases by (rule conjunct1)
  have stop: "\<not> strings_Contains ?msg ''FAILED_PRECONDITION'' \<longrightarrow>
            res = Returned \<lparr>Project = project, Status = ''Failed'', Reason = ?msg\<rparr> \<and>
            (\<forall>c \<in> set (calls events). \<not> is_archive c \<and> \<not> is_upload c)"
    using cases by simp
  have member: "\<And>cz rz. Called cz rz \<in> set events \<Longrightarrow> cz \<in> set (calls events)"
  proof -
    fix cz rz
    show "Called cz rz \<in> set events \<Longrightarrow> cz \<in> set (calls events)"
      by (induction events rule: calls.induct) auto
  qed
  have iff: "(\<exists>c \<in> set (calls events). is_archive c) \<longleftrightarrow>
               strings_Contains ?msg ''FAILED_PRECONDITION''"
  proof (cases "strings_Contains ?msg ''FAILED_PRECONDITION''")
    case True
    with continue have "\<exists>cz rz. Called cz rz \<in> set events \<and> is_archive cz \<and>
               (failure rz = None \<longrightarrow> (\<exists>c \<in> set (calls events). is_upload c))"
      by (rule mp)
    then obtain cz rz where "Called cz rz \<in> set events" "is_archive cz"
      by (elim exE conjE) (rule that)
    with member [of cz rz] have "\<exists>c \<in> set (calls events). is_archive c"
      by (intro bexI [of _ cz])
    with True show ?thesis by simp
  next
    case False
    with stop have "\<forall>c \<in> set (calls events). \<not> is_archive c" by simp
    with False show ?thesis by simp
  qed
  have raw: "decode h (stderr re) = None \<longrightarrow>
            (if strings_Contains (stderr re) unauthorized_message
             then ?msg = unauthorized_message \<and>
                  res = Returned \<lparr>Project = project, Status = ''Failed'',
                                   Reason = unauthorized_message\<rparr> \<and>
                  (\<forall>c \<in> set (calls events). \<not> is_archive c \<and> \<not> is_upload c)
             else ?msg = stderr re \<and>
                  ((\<exists>c \<in> set (calls events). is_archive c) \<longleftrightarrow>
                     strings_Contains (stderr re) ''FAILED_PRECONDITION''))"
  proof
    assume undecoded: "decode h (stderr re) = None"
    show "if strings_Contains (stderr re) unauthorized_message
             then ?msg = unauthorized_message \<and>
                  res = Returned \<lparr>Project = project, Status = ''Failed'',
                                   Reason = unauthorized_message\<rparr> \<and>
                  (\<forall>c \<in> set (calls events). \<not> is_archive c \<and> \<not> is_upload c)
             else ?msg = stderr re \<and>
                  ((\<exists>c \<in> set (calls events). is_archive c) \<longleftrightarrow>
                     strings_Contains (stderr re) ''FAILED_PRECONDITION'')"
    proof (cases "strings_Contains (stderr re) unauthorized_message")
      case True
      with undecoded have msg: "?msg = unauthorized_message"
        by (simp add: parseError_undecoded parseError_raw_def)
      with unauthorized_message_no_token stop True show ?thesis
        by simp
    next
      case False
      with undecoded have "?msg = stderr re"
        by (simp add: parseError_undecoded parseError_raw_def)
      with iff False show ?thesis by simp
    qed
  qed
  from iff continue stop raw show ?thesis by (intro conjI)
qed

theorem continue_is_substring_test_witness:
  "filter (\<lambda>c. is_archive c \<or> is_upload c)
     (calls (snd (snd (backupProject raw_precondition_host no_sinks ''proj-a'' ''bucket'' ''token''
                         30 []))))
     = [Command ''/tmp/apigee_backup/export'' [''zip'', ''-r'',
          ''/tmp/apigee_backup/2024-03-01/backup_proj-a_2024-03-01.zip'', ''.'', ''-i'', ''*''],
        Command [] [''gsutil'', ''cp'', ''/tmp/apigee_backup/2024-03-01/backup_proj-a_2024-03-01.zip'',
          ''gs://bucket/proj-a/backup_proj-a_2024-03-01.zip'']] \<and>
   strings_Contains stderr_raw_precondition ''FAILED_PRECONDITION'' \<and>
   example_Unmarshal stderr_raw_precondition = None"
proof -
  obtain res w' events where
    run: "backupProject raw_precondition_host no_sinks ''proj-a'' ''bucket'' ''token'' 30 []
            = (res, w', events)"
    by (cases "backupProject raw_precondition_host no_sinks ''proj-a'' ''bucket'' ''token'' 30 []")
  have raw: "example_Unmarshal stderr_raw_precondition = None"
    "strings_Contains stderr_raw_precondition ''FAILED_PRECONDITION''"
    "\<not> strings_Contains stderr_raw_precondition unauthorized_message"
    by (simp_all add: example_Unmarshal_def scripted_Unmarshal_def stderr_raw_precondition_def
        stderr_precondition_def stderr_quota_def unauthorized_message_def)
  then have classified: "parseError example_Unmarshal stderr_raw_precondition
      = stderr_raw_precondition"
    by (simp add: parseError_undecoded parseError_raw_def)
  have calls: "filter (\<lambda>c. is_archive c \<or> is_upload c)
     (calls (snd (snd (backupProject raw_precondition_host no_sinks ''proj-a'' ''bucket'' ''token''
                         30 []))))
     = [Command ''/tmp/apigee_backup/export'' [''zip'', ''-r'',
          ''/tmp/apigee_backup/2024-03-01/backup_proj-a_2024-03-01.zip'', ''.'', ''-i'', ''*''],
        Command [] [''gsutil'', ''cp'', ''/tmp/apigee_backup/2024-03-01/backup_proj-a_2024-03-01.zip'',
          ''gs://bucket/proj-a/backup_proj-a_2024-03-01.zip'']]"
    using raw(2)
    by (simp add: run_defs raw_precondition_host_def no_sinks_def classified is_upload_def)
  have "export_reply
     (snd (snd (backupProject raw_precondition_host no_sinks ''proj-a'' ''bucket'' ''token'' 30 [])))
     = Some (exit_status_1 stderr_raw_precondition)"
    using raw(2)
    by (simp add: run_defs raw_precondition_host_def no_sinks_def classified export_reply_def)
  with run have exported: "export_reply events = Some (exit_status_1 stderr_raw_precondition)"
    by simp
  have error: "failure (exit_status_1 stderr_raw_precondition) \<noteq> None"
    by (simp add: exit_status_1_def)
  have held: "decode raw_precondition_host (stderr (exit_status_1 stderr_raw_precondition)) = None"
    "strings_Contains (stderr (exit_status_1 stderr_raw_precondition)) ''FAILED_PRECONDITION''"
    "\<not> strings_Contains (stderr (exit_status_1 stderr_raw_precondition)) unauthorized_message"
    using raw by (simp_all add: raw_precondition_host_def store_host_def exit_status_1_def)
  from continue_is_substring_test [OF run exported error, THEN conjunct2, THEN conjunct2,
      THEN conjunct2, rule_format, OF held(1)] held(3)
  have "(\<exists>c \<in> set (calls events). is_archive c) \<longleftrightarrow>
          strings_Contains (stderr (exit_status_1 stderr_raw_precondition)) ''FAILED_PRECONDITION''"
    by (simp only: if_False)
  from this [THEN iffD2, OF held(2)]
  have "\<exists>c \<in> set (calls events). is_archive c" .
  with calls raw show ?thesis by simp
qed

text \<open>
  The claim as it was stated fails on a text that is not JSON and holds both the token and
  the unauthorized sentence: the status is Failed and nothing is archived or uploaded.
\<close>

theorem continue_is_substring_test_counterexample:
  "example_Unmarshal stderr_unauthorized_precondition = None \<and>
   strings_Contains stderr_unauthorized_precondition ''FAILED_PRECONDITION'' \<and>
   export_reply (snd (snd (backupProject unauthorized_host no_sinks ''proj-a'' ''bucket'' ''token''
                             30 [])))
     = Some (exit_status_1 stderr_unauthorized_precondition) \<and>
   fst (backupProject unauthorized_host no_sinks ''proj-a'' ''bucket'' ''token'' 30 []) =
     Returned \<lparr>Project = ''proj-a'', Status = ''Failed'',
                Reason = ''Unauthorized - the client must authenticate itself''\<rparr> \<and>
   filter (\<lambda>c. is_archive c \<or> is_upload c)
     (calls (snd (snd (backupProject unauthorized_host no_sinks ''proj-a'' ''bucket'' ''token''
                         30 [])))) = []"
proof -
  have raw: "example_Unmarshal stderr_unauthorized_precondition = None"
    "strings_Contains stderr_unauthorized_precondition ''FAILED_PRECONDITION''"
    "strings_Contains stderr_unauthorized_precondition unauthorized_message"
    by (simp_all add: example_Unmarshal_def scripted_Unmarshal_def
        stderr_unauthorized_precondition_def stderr_precondition_def stderr_quota_def
        unauthorized_message_def)
  then have classified: "parseError example_Unmarshal stderr_unauthorized_precondition
      = ''Unauthorized - the client must authenticate itself''"
    by (simp add: parseError_undecoded parseError_raw_def unauthorized_message_def)
  have "export_reply (snd (snd (backupProject unauthorized_host no_sinks ''proj-a'' ''bucket''
                                  ''token'' 30 [])))
          = Some (exit_status_1 stderr_unauthorized_precondition)"
    "fst (backupProject unauthorized_host no_sinks ''proj-a'' ''bucket'' ''token'' 30 []) =
       Returned \<lparr>Project = ''proj-a'', Status = ''Failed'',
                  Reason = ''Unauthorized - the client must authenticate itself''\<rparr>"
    "filter (\<lambda>c. is_archive c \<or> is_upload c)
       (calls (snd (snd (backupProject unauthorized_host no_sinks ''proj-a'' ''bucket'' ''token''
                           30 [])))) = []"
    by (simp_all add: run_defs unauthorized_host_def no_sinks_def classified export_reply_def
        is_upload_def)
  with raw show ?thesis by simp
qed

section \<open>A retention sweep that fails\<close>

lemma replies_is_listing_sent:
  assumes "calls sent = project_notifications g project date date' status reason"
  shows "replies is_listing sent = []"
    and "filter is_notification (calls sent) = calls sent"
  using assms project_notifications_kind [of g project date date' status reason]
  by (simp_all add: replies_none filter_id_conv)

text \<open>
  The archive step with a listing among its events: the listing is the one of the retention
  step, the notifications of the success are all that was sent before it, and when it has an
  error the step ends there with the status \<open>Failed\<close>.
\<close>

lemma backup_archive_sweep:
  assumes run: "backup_archive h g status project gcsBucket retentionDays today dateFolder
                  exportFolder w = (res, w', events)"
    and listed: "replies is_listing events \<noteq> []"
  obtains earlier cl rl rest date' where
    "events = earlier @ Called cl rl # rest" "is_listing cl" "replies is_listing earlier = []"
    "filter is_notification (calls earlier) =
       project_notifications g project today date' ''Complete'' ''no issue''"
    "failure rl = None \<or>
     (\<exists>err. failure rl = Some err \<and>
        rest = [Logged (''Failed to clean up old backups: failed to list GCS bucket: ''
                        @ Error err)] \<and>
        res = Returned (failed status (''Failed to clean up old backups: failed to list GCS bucket: ''
                        @ Error err)))"
  using run
proof (cases rule: backup_archive_run)
  case (archive_failed cz rz err)
  from \<open>is_archive cz\<close> have "\<not> is_listing cz"
    using is_gsutil_command [of "''ls''" cz]
    by (induction cz rule: is_archive.induct) (auto simp: is_listing_def)
  with archive_failed listed show thesis by simp
next
  case (upload_failed cz rz cu ru err)
  from \<open>is_archive cz\<close> have "\<not> is_listing cz"
    using is_gsutil_command [of "''ls''" cz]
    by (induction cz rule: is_archive.induct) (auto simp: is_listing_def)
  moreover from \<open>is_upload cu\<close> have "\<not> is_listing cu"
    using is_gsutil_command [of "''cp''" cu]
    by (auto simp: is_listing_def is_upload_def)
  ultimately show thesis using upload_failed listed by simp
next
  case (uploaded cz rz cu ru sent date' w1 rest3)
  from \<open>is_archive cz\<close> have cz_kind: "\<not> is_listing cz" "\<not> is_notification cz"
    using is_gsutil_command [of "''ls''" cz]
    by (induction cz rule: is_archive.induct) (auto simp: is_listing_def)
  from \<open>is_upload cu\<close> have cu_kind: "\<not> is_listing cu" "\<not> is_notification cu"
    using is_gsutil_command [of "''cp''" cu]
    by (auto simp: is_listing_def is_upload_def)
  note sent = \<open>calls sent = project_notifications g project today date' ''Complete'' ''no issue''\<close>
  from \<open>backup_cleanup h status gcsBucket retentionDays project w1 = (res, w', rest3)\<close>
  obtain rl rest where
    r3: "rest3 = Called (Command [] [''gsutil'', ''ls'',
                     ''gs://'' @ gcsBucket @ ''/'' @ project @ ''/'']) rl # rest" and
    out: "failure rl = None \<or>
     (\<exists>err. failure rl = Some err \<and>
        rest = [Logged (''Failed to clean up old backups: failed to list GCS bucket: ''
                        @ Error err)] \<and>
        res = Returned (failed status (''Failed to clean up old backups: failed to list GCS bucket: ''
                        @ Error err)))"
    by (rule backup_cleanup_run)
  let ?cl = "Command [] [''gsutil'', ''ls'', ''gs://'' @ gcsBucket @ ''/'' @ project @ ''/'']"
  let ?earlier = "Called cz rz # Called cu ru # sent"
  have 1: "events = ?earlier @ Called ?cl rl # rest"
    using uploaded(1) r3 by simp
  have 2: "is_listing ?cl" by (simp add: is_listing_def)
  have 3: "replies is_listing ?earlier = []"
    using cz_kind cu_kind replies_is_listing_sent(1) [OF sent] by simp
  have 4: "filter is_notification (calls ?earlier) =
       project_notifications g project today date' ''Complete'' ''no issue''"
    using cz_kind cu_kind replies_is_listing_sent(2) [OF sent] sent by simp
  from 1 2 3 4 out show thesis by (rule that)
qed

text \<open>
  C8. When the retention sweep fails (its listing has an error), which happens after the
  notifications of the success, the status of the project becomes Failed with the error of
  the sweep as the reason; the notifications of the success are the only ones of the run:
  nothing is sent after the failure.
\<close>

theorem sweep_failure_downgrades:
  assumes run: "backupProject h g project gcsBucket token retentionDays w = (res, w', events)"
    and sweep: "sweep_error events = Some err"
  shows "res = Returned \<lparr>Project = project, Status = ''Failed'',
           Reason = ''Failed to clean up old backups: failed to list GCS bucket: '' @ Error err\<rparr> \<and>
         (\<exists>earlier cl rl date date'.
            events = earlier @
              [Called cl rl,
               Logged (''Failed to clean up old backups: failed to list GCS bucket: '' @ Error err)] \<and>
            is_listing cl \<and> failure rl = Some err \<and>
            filter is_notification (calls earlier) =
              project_notifications g project date date' ''Complete'' ''no issue'')"
proof -
  let ?status = "\<lparr>Project = project, Status = ''Complete'', Reason = ''no issue''\<rparr>"
  let ?line = "\<lambda>e. ''Failed to clean up old backups: failed to list GCS bucket: '' @ Error e"
  from sweep have "length (replies is_listing events) \<ge> 2"
    by (auto simp: sweep_error_def split: list.splits)
  then have "replies is_export events \<noteq> [] \<or> length (replies is_listing events) \<ge> 2"
    by simp
  with run obtain pre rp ce re rest today where
    ev: "events = pre @ Called ce re # rest" and
    pre: "\<forall>c \<in> set (calls pre).
       \<not> is_export c \<and> \<not> is_archive c \<and> \<not> is_upload c \<and> \<not> is_notification c" and
    probe: "replies is_listing pre = [rp]" and
    kind: "is_export ce" and
    out: "after_export h g ?status project gcsBucket retentionDays today re rest res w'"
    by (rule backupProject_export)
  note ce = is_export_kind [OF kind]
  from ev probe ce(4) have listings: "replies is_listing events = rp # replies is_listing rest"
    by (simp add: replies_append)
  with sweep have more: "replies is_listing rest \<noteq> []"
    by (auto simp: sweep_error_def)
  from pre have quiet: "filter is_notification (calls pre) = []"
    by (simp add: filter_empty_conv)
  from out more obtain logged events_a w1 where
    rest: "rest = logged @ events_a" and logged: "calls logged = []" and
    archive: "backup_archive h g ?status project gcsBucket retentionDays today
                (filepath_Join apigeeBackupDir today)
                (filepath_Join apigeeBackupDir ''export'') w1 = (res, w', events_a)"
  proof -
    from out consider
      (ok) w1 where "failure re = None"
        "backup_archive h g ?status project gcsBucket retentionDays today
           (filepath_Join apigeeBackupDir today)
           (filepath_Join apigeeBackupDir ''export'') w1 = (res, w', rest)"
    | (continue) w1 line1 line2 rest' where "rest = Logged line1 # Logged line2 # rest'"
        "backup_archive h g ?status project gcsBucket retentionDays today
           (filepath_Join apigeeBackupDir today)
           (filepath_Join apigeeBackupDir ''export'') w1 = (res, w', rest')"
    | (stop) line sent date' where "rest = Logged line # sent"
        "calls sent = project_notifications g project today date' ''Failed''
           (parseError (decode h) (stderr re))"
      unfolding after_export_def by auto
    then show thesis
    proof cases
      case ok
      with that [of "[]" rest w1] show thesis by simp
    next
      case continue
      with that [of "[Logged line1, Logged line2]" rest' w1] show thesis by simp
    next
      case stop
      with replies_is_listing_sent(1) [OF stop(2)] more show thesis by simp
    qed
  qed
  from logged have logged_replies: "replies is_listing logged = []"
    by (simp add: replies_none)
  with rest more have "replies is_listing events_a \<noteq> []"
    by (simp add: replies_append)
  with archive obtain earlier cl rl tail date' where
    ev_a: "events_a = earlier @ Called cl rl # tail" and cl: "is_listing cl" and
    none: "replies is_listing earlier = []" and
    sent: "filter is_notification (calls earlier) =
       project_notifications g project today date' ''Complete'' ''no issue''" and
    fin: "failure rl = None \<or>
     (\<exists>e. failure rl = Some e \<and> tail = [Logged (?line e)] \<and>
        res = Returned (failed ?status (?line e)))"
    by (rule backup_archive_sweep)
  from listings rest ev_a logged_replies none cl
  have "replies is_listing events = rp # rl # replies is_listing tail"
    by (simp add: replies_append)
  with sweep have "failure rl = Some err"
    by (simp add: sweep_error_def)
  with fin have tail: "tail = [Logged (?line err)]" and
    res: "res = Returned (failed ?status (?line err))"
    by auto
  let ?earlier = "pre @ Called ce re # logged @ earlier"
  from ev rest ev_a tail have 1: "events = ?earlier @ [Called cl rl, Logged (?line err)]"
    by simp
  from quiet ce(3) logged sent
  have 2: "filter is_notification (calls ?earlier) =
       project_notifications g project today date' ''Complete'' ''no issue''"
    by (simp add: calls_append)
  from 1 2 cl \<open>failure rl = Some err\<close>
  have "\<exists>earlier cl rl date date'.
            events = earlier @ [Called cl rl, Logged (?line err)] \<and>
            is_listing cl \<and> failure rl = Some err \<and>
            filter is_notification (calls earlier) =
              project_notifications g project date date' ''Complete'' ''no issue''"
    by (intro exI [of _ ?earlier] exI [of _ cl] exI [of _ rl] exI [of _ today] exI [of _ date'])
      simp
  with res show ?thesis by (simp add: failed_def)
qed

theorem sweep_failure_downgrades_witness:
  "sweep_error (snd (snd (backupProject no_listing_host both_sinks ''proj-a'' ''bucket'' ''token''
                            30 ())))
     = Some (Failure ''exit status 1'') \<and>
   fst (backupProject no_listing_host both_sinks ''proj-a'' ''bucket'' ''token'' 30 ()) =
     Returned \<lparr>Project = ''proj-a'', Status = ''Failed'',
       Reason = ''Failed to clean up old backups: failed to list GCS bucket: exit status 1''\<rparr> \<and>
   filter is_notification
     (calls (snd (snd (backupProject no_listing_host both_sinks ''proj-a'' ''bucket'' ''token''
                         30 ()))))
     = project_notifications both_sinks ''proj-a'' ''2024-03-01'' ''2024-03-01'' ''Complete''
         ''no issue''"
proof -
  obtain res w' events where
    run: "backupProject no_listing_host both_sinks ''proj-a'' ''bucket'' ''token'' 30 ()
            = (res, w', events)"
    by (cases "backupProject no_listing_host both_sinks ''proj-a'' ''bucket'' ''token'' 30 ()")
  have "sweep_error
     (snd (snd (backupProject no_listing_host both_sinks ''proj-a'' ''bucket'' ''token'' 30 ())))
     = Some (Failure ''exit status 1'')"
    by (simp add: run_defs no_listing_host_def fixed_host_def no_listing_answer_def is_listing_def
        both_sinks_def sweep_error_def)
  with run have sweep: "sweep_error events = Some (Failure ''exit status 1'')"
    by simp
  from sweep_failure_downgrades [OF run sweep]
  have "res = Returned \<lparr>Project = ''proj-a'', Status = ''Failed'',
       Reason = ''Failed to clean up old backups: failed to list GCS bucket: exit status 1''\<rparr>"
    by simp
  moreover have "filter is_notification
     (calls (snd (snd (backupProject no_listing_host both_sinks ''proj-a'' ''bucket'' ''token''
                         30 ()))))
     = project_notifications both_sinks ''proj-a'' ''2024-03-01'' ''2024-03-01'' ''Complete''
         ''no issue''"
    by (simp add: run_defs no_listing_host_def fixed_host_def no_listing_answer_def is_listing_def
        both_sinks_def project_notifications_def)
  ultimately show ?thesis using run sweep by simp
qed

section \<open>The retention sweep\<close>

lemma go_slice_returns:
  assumes "p + z \<le> length s"
  shows "go_slice s (int p) (int (length s) - int z) = Returned (take (length s - z - p) (drop p s))"
proof -
  from assms have in_range:
    "0 \<le> int p \<and> int p \<le> int (length s) - int z \<and> int (length s) - int z \<le> int (length s)"
    by arith
  from assms have "nat (int (length s) - int z - int p) = length s - z - p"
    by arith
  with in_range show ?thesis
    unfolding go_slice_def by (simp only: if_True nat_int simp_thms)
qed

lemma go_slice_panics:
  assumes "\<not> p + z \<le> length s"
  shows "go_slice s (int p) (int (length s) - int z) = Panicked"
proof -
  from assms have
    "\<not> (0 \<le> int p \<and> int p \<le> int (length s) - int z \<and> int (length s) - int z \<le> int (length s))"
    by arith
  then show ?thesis
    unfolding go_slice_def by (simp only: if_False)
qed

lemma isOlderThanRetention_long:
  assumes "long_enough env gcsPath"
  shows "\<exists>logged. isOlderThanRetention gcsPath cutoffDate env w =
           (Returned (old_backup cutoffDate env gcsPath), w, logged) \<and> calls logged = [] \<and>
           (embedded_date env gcsPath = None \<longrightarrow>
              (\<exists>line. logged = [Logged (''Failed to parse date from path '' @ gcsPath @ '': ''
                                      @ line)]))"
proof -
  let ?base = "filepath_Base gcsPath"
  let ?prefix = "''backup_'' @ env @ ''_''"
  let ?dateStr = "take (length ?base - length ''.zip'' - length ?prefix) (drop (length ?prefix) ?base)"
  from assms have
    slice: "go_slice ?base (int (length ?prefix)) (int (length ?base) - int (length ''.zip''))
              = Returned ?dateStr"
    unfolding long_enough_def by (rule go_slice_returns)
  from assms have date: "embedded_date env gcsPath = time_Parse_date ?dateStr"
    unfolding long_enough_def embedded_date_def Let_def by (simp only: if_True)
  show ?thesis
  proof (cases "time_Parse_date ?dateStr")
    case None
    with slice date show ?thesis
      unfolding isOlderThanRetention_def Let_def old_backup_def
      by (simp only: result.case option.case io_defs) simp
  next
    case (Some backupDate)
    with slice date show ?thesis
      unfolding isOlderThanRetention_def Let_def old_backup_def
      by (simp only: result.case option.case io_defs) simp
  qed
qed

lemma isOlderThanRetention_short:
  assumes "\<not> long_enough env gcsPath"
  shows "isOlderThanRetention gcsPath cutoffDate env w = (Panicked, w, [])"
proof -
  let ?base = "filepath_Base gcsPath"
  let ?prefix = "''backup_'' @ env @ ''_''"
  from assms have
    "go_slice ?base (int (length ?prefix)) (int (length ?base) - int (length ''.zip'')) = Panicked"
    unfolding long_enough_def by (rule go_slice_panics)
  then show ?thesis
    unfolding isOlderThanRetention_def Let_def
    by (simp only: result.case io_defs)
qed

lemma deleted_append: "deleted (xs @ ys) = deleted xs @ deleted ys"
  by (induction xs rule: deleted.induct) simp_all

lemma deleted_logged: "calls logged = [] \<Longrightarrow> deleted logged = []"
  by (induction logged rule: calls.induct) simp_all

text \<open>
  When every listed name is long enough, the sweep returns and the deletions it asks for are
  those of the old backups among the lines, in order.
\<close>

lemma cleanup_lines_deleted:
  assumes "\<forall>line \<in> set lines. line \<noteq> [] \<longrightarrow> long_enough env line"
  shows "\<exists>w' events. cleanup_lines h cutoffDate env lines w = (Returned (), w', events) \<and>
           deleted events = filter (\<lambda>line. line \<noteq> [] \<and> old_backup cutoffDate env line) lines"
  using assms
proof (induction lines arbitrary: w)
  case Nil
  then show ?case by (simp add: io_defs)
next
  case (Cons line lines)
  show ?case
  proof (cases "line = []")
    case True
    with Cons show ?thesis by simp
  next
    case False
    with Cons.prems have "long_enough env line" by simp
    from isOlderThanRetention_long [OF this, of cutoffDate w] obtain logged where
      older: "isOlderThanRetention line cutoffDate env w =
                (Returned (old_backup cutoffDate env line), w, logged)" and
      logged: "calls logged = []"
      by blast
    show ?thesis
    proof (cases "old_backup cutoffDate env line")
      case False
      from Cons.IH [of w] Cons.prems obtain w' events where
        "cleanup_lines h cutoffDate env lines w = (Returned (), w', events)"
        "deleted events = filter (\<lambda>line. line \<noteq> [] \<and> old_backup cutoffDate env line) lines"
        by auto
      with older logged False \<open>line \<noteq> []\<close> show ?thesis
        by (simp add: io_bind_def io_return_def deleted_append deleted_logged)
    next
      case True
      obtain r w1 where rm: "exec h (Command [] [''gsutil'', ''rm'', line]) w = (r, w1)"
        by (cases "exec h (Command [] [''gsutil'', ''rm'', line]) w")
      from Cons.IH [of w1] Cons.prems obtain w' events where
        "cleanup_lines h cutoffDate env lines w1 = (Returned (), w', events)"
        "deleted events = filter (\<lambda>line. line \<noteq> [] \<and> old_backup cutoffDate env line) lines"
        by auto
      with older logged True rm \<open>line \<noteq> []\<close> show ?thesis
        by (cases "failure r")
          (simp_all add: io_bind_def io_return_def perform_def log_Printf_def deleted_append
            deleted_logged)
    qed
  qed
qed

text \<open>Whether the sweep returns or panics, it asks only for deletions of old backups.\<close>

lemma cleanup_lines_only_old:
  "cleanup_lines h cutoffDate env lines w = (res, w', events) \<Longrightarrow>
     set (deleted events) \<subseteq> {line \<in> set lines. old_backup cutoffDate env line}"
proof (induction lines arbitrary: w res w' events)
  case Nil
  then show ?case by (simp add: io_defs)
next
  case (Cons line lines)
  show ?case
  proof (cases "line = []")
    case True
    with Cons.prems have "cleanup_lines h cutoffDate env lines w = (res, w', events)"
      by simp
    from Cons.IH [OF this] show ?thesis by auto
  next
    case False
    show ?thesis
    proof (cases "long_enough env line")
      case short: False
      from isOlderThanRetention_short [OF this, of cutoffDate w] Cons.prems \<open>line \<noteq> []\<close>
      show ?thesis by (simp add: io_bind_def io_return_def)
    next
      case True
      from isOlderThanRetention_long [OF this, of cutoffDate w] obtain logged where
        older: "isOlderThanRetention line cutoffDate env w =
                  (Returned (old_backup cutoffDate env line), w, logged)" and
        logged: "calls logged = []"
        by blast
      show ?thesis
      proof (cases "old_backup cutoffDate env line")
        case False
        with older logged Cons.prems \<open>line \<noteq> []\<close> obtain events1 where
          "cleanup_lines h cutoffDate env lines w = (res, w', events1)"
          "events = logged @ events1"
          by (auto simp: io_bind_def io_return_def split: prod.splits)
        with Cons.IH [of w res w' events1] logged show ?thesis
          by (auto simp: deleted_append deleted_logged)
      next
        case True
        obtain r w1 where rm: "exec h (Command [] [''gsutil'', ''rm'', line]) w = (r, w1)"
          by (cases "exec h (Command [] [''gsutil'', ''rm'', line]) w")
        with older logged True Cons.prems \<open>line \<noteq> []\<close> obtain line1 events1 where
          "cleanup_lines h cutoffDate env lines w1 = (res, w', events1)"
          "events = logged @ Called (Command [] [''gsutil'', ''rm'', line]) r # Logged line1 # events1"
          by (cases "failure r")
            (auto simp: io_bind_def io_return_def perform_def log_Printf_def split: prod.splits)
        with Cons.IH [of w1 res w' events1] logged True show ?thesis
          by (auto simp: deleted_append deleted_logged)
      qed
    qed
  qed
qed

section \<open>A listed name that is too short\<close>

lemma example_long_enough:
  "\<not> long_enough ''proj-a'' ''gs://bucket/proj-a/notes.txt''"
  "long_enough ''proj-a'' ''gs://bucket/proj-a/backup_proj-a_2024-01-01.zip''"
  by (simp_all add: long_enough_def example_paths)

lemma stale_sweep:
  "cleanupOldBackups plain_host ''bucket'' 30 ''proj-a'' stale_store =
     (Panicked, stale_store,
      [Called (Command [] [''gsutil'', ''ls'', ''gs://bucket/proj-a/''])
         (ok\<lparr>stdout := ''gs://bucket/proj-a/notes.txt'' @ LF @
                          ''gs://bucket/proj-a/backup_proj-a_2024-01-01.zip'' @ LF\<rparr>)])"
  by (simp add: run_defs plain_host_def stale_store_def)

text \<open>
  C6. The claim fails on a listed name too short for the prefix and the suffix: the slice
  expression of \<open>isOlderThanRetention\<close> panics. Nothing is logged for the entry and the sweep
  does not go on to the entries after it.
\<close>

theorem short_name_panics:
  "isOlderThanRetention ''gs://bucket/proj-a/notes.txt''
     (time_AddDate_days noon_2024_03_01 (- 30)) ''proj-a'' stale_store
     = (Panicked, stale_store, []) \<and>
   cleanup_lines plain_host (time_AddDate_days noon_2024_03_01 (- 30)) ''proj-a''
     [''gs://bucket/proj-a/notes.txt'', ''gs://bucket/proj-a/backup_proj-a_2024-01-01.zip'', []]
     stale_store
     = (Panicked, stale_store, [])"
  using isOlderThanRetention_short [OF example_long_enough(1),
      of "time_AddDate_days noon_2024_03_01 (- 30)" stale_store]
  by (simp add: io_bind_def io_return_def)

text \<open>
  C5. The claim fails on a listing with a short name before an old backup: with a retention
  of 30 days at noon of 2024-03-01 the backup of 2024-01-01 is an old backup, but the sweep
  panics at the short name before it, asks for no deletion and leaves the store as it was.
\<close>

theorem sweep_stops_before_old_backup:
  "old_backup (time_AddDate_days noon_2024_03_01 (- 30)) ''proj-a''
     ''gs://bucket/proj-a/backup_proj-a_2024-01-01.zip'' \<and>
   fst (cleanupOldBackups plain_host ''bucket'' 30 ''proj-a'' stale_store) = Panicked \<and>
   deleted (snd (snd (cleanupOldBackups plain_host ''bucket'' 30 ''proj-a'' stale_store))) = [] \<and>
   fst (snd (cleanupOldBackups plain_host ''bucket'' 30 ''proj-a'' stale_store)) = stale_store"
proof -
  have "old_backup (time_AddDate_days noon_2024_03_01 (- 30)) ''proj-a''
     ''gs://bucket/proj-a/backup_proj-a_2024-01-01.zip''"
    by (simp add: old_backup_def embedded_date_def example_paths example_dates time_Before_def
        time_AddDate_days_def nanos_per_day_def Let_def)
  then show ?thesis by (simp add: stale_sweep)
qed

text \<open>
  C1. The claim fails when the remote store of a project holds a name that is too short: the
  panic of the retention sweep leaves \<open>backupProject\<close> without a status, and the loop of
  \<open>main\<close> ends at that project: the events of the loop over two projects are those of the
  first project.
\<close>

theorem backupProject_panics:
  "fst (backupProject plain_host no_sinks ''proj-a'' ''bucket'' ''token'' 30
          [''gs://bucket/proj-a/notes.txt'']) = Panicked \<and>
   main_loop plain_host no_sinks ''bucket'' ''token'' 30 [] [''proj-a'', ''proj-b'']
     [''gs://bucket/proj-a/notes.txt''] =
     (Panicked,
      snd (backupProject plain_host no_sinks ''proj-a'' ''bucket'' ''token'' 30
             [''gs://bucket/proj-a/notes.txt'']))"
proof -
  have "fst (backupProject plain_host no_sinks ''proj-a'' ''bucket'' ''token'' 30
          [''gs://bucket/proj-a/notes.txt'']) = Panicked"
    by (simp add: run_defs plain_host_def no_sinks_def)
  then obtain w1 events1 where
    "backupProject plain_host no_sinks ''proj-a'' ''bucket'' ''token'' 30
       [''gs://bucket/proj-a/notes.txt''] = (Panicked, w1, events1)"
    by (cases "backupProject plain_host no_sinks ''proj-a'' ''bucket'' ''token'' 30
       [''gs://bucket/proj-a/notes.txt'']") simp
  then show ?thesis
    by (simp add: io_bind_def io_return_def)
qed

text \<open>When no backup panics, the loop appends one status for each project.\<close>

lemma main_loop_one_status_each:
  "main_loop h g gcsBucket token retentionDays statuses projects w = (Returned out, w', events)
     \<Longrightarrow> length out = length statuses + length projects"
proof (induction projects arbitrary: statuses w events)
  case Nil
  then show ?case by (simp add: io_return_def)
next
  case (Cons project projects)
  obtain r w1 events1 where
    one: "backupProject h g project gcsBucket token retentionDays w = (r, w1, events1)"
    by (cases "backupProject h g project gcsBucket token retentionDays w")
  show ?case
  proof (cases r)
    case Panicked
    with one Cons.prems show ?thesis
      by (simp add: io_bind_def io_return_def)
  next
    case (Returned status)
    with one Cons.prems obtain events2 where
      "main_loop h g gcsBucket token retentionDays (statuses @ [status]) projects w1
         = (Returned out, w', events2)"
      by (auto simp: io_bind_def split: prod.splits)
    from Cons.IH [OF this] show ?thesis by simp
  qed
qed

section \<open>The upload and the check for a backup of today\<close>

text \<open>
  C3. The claim fails: \<open>uploadToGCS\<close> stores the archive as
  \<open>gs://<bucket>/<project>/backup_<project>_<date>.zip\<close>, and \<open>backupExistsInGCS\<close> lists
  \<open>gs://<bucket>/<project>/<date>/\<close>, below which the upload puts nothing. After the upload
  into an empty store the check returns false, and a second backup of the project on the same
  day, started on the store that the first one left, runs the export and the upload again.
\<close>

theorem upload_then_probe_misses:
  "uploadToGCS plain_host ''bucket'' ''/tmp/apigee_backup/2024-03-01/backup_proj-a_2024-03-01.zip''
     ''proj-a'' [] =
     (None, [''gs://bucket/proj-a/backup_proj-a_2024-03-01.zip''],
      [Called (Command [] [''gsutil'', ''cp'',
                 ''/tmp/apigee_backup/2024-03-01/backup_proj-a_2024-03-01.zip'',
                 ''gs://bucket/proj-a/backup_proj-a_2024-03-01.zip'']) ok]) \<and>
   fst (backupExistsInGCS plain_host ''bucket'' ''2024-03-01'' ''proj-a''
          [''gs://bucket/proj-a/backup_proj-a_2024-03-01.zip'']) = False \<and>
   fst (snd (backupProject plain_host no_sinks ''proj-a'' ''bucket'' ''token'' 30 []))
     = [''gs://bucket/proj-a/backup_proj-a_2024-03-01.zip''] \<and>
   filter (\<lambda>c. is_export c \<or> is_upload c)
     (calls (snd (snd (backupProject plain_host no_sinks ''proj-a'' ''bucket'' ''token'' 30
                         [''gs://bucket/proj-a/backup_proj-a_2024-03-01.zip'']))))
     = [Command [] [''bash'', ''-c'',
          ''cd /tmp/apigee_backup/export && apigeecli organizations export --all -o proj-a -t token''],
        Command [] [''gsutil'', ''cp'', ''/tmp/apigee_backup/2024-03-01/backup_proj-a_2024-03-01.zip'',
          ''gs://bucket/proj-a/backup_proj-a_2024-03-01.zip'']]"
  by (simp add: run_defs plain_host_def no_sinks_def is_upload_def)

section \<open>The project list reader\<close>

lemma strings_Split_LF_not_Nil: "strings_Split_LF s \<noteq> []"
  by (induction s) (auto split: list.splits)

lemma collect_projects_filter:
  "collect_projects projects texts =
     projects @ filter (\<lambda>project. project \<noteq> []) (map strings_TrimSpace texts)"
  by (induction texts arbitrary: projects) (simp_all add: Let_def)

lemma scan_pieces_short:
  assumes "pieces \<noteq> []" and "\<forall>piece \<in> set pieces. length piece < MaxScanTokenSize"
  shows "scan_pieces pieces ended =
           (map dropCR (if last pieces = [] then butlast pieces else pieces), ended)"
  using assms
  by (induction pieces ended rule: scan_pieces.induct) (auto split: prod.splits)

lemma scan_pieces_long:
  assumes "\<exists>piece \<in> set pieces. MaxScanTokenSize \<le> length piece"
  shows "snd (scan_pieces pieces ended) = Some ErrTooLong"
  using assms
proof (induction pieces ended rule: scan_pieces.induct)
  case (1 ended)
  then show ?case by simp
next
  case (2 final ended)
  then show ?case by simp
next
  case (3 piece next_piece pieces ended)
  show ?case
  proof (cases "MaxScanTokenSize \<le> length piece")
    case True
    then show ?thesis by simp
  next
    case False
    with "3.prems" have "\<exists>p \<in> set (next_piece # pieces). MaxScanTokenSize \<le> length p"
      by simp
    with "3.IH" False have "snd (scan_pieces (next_piece # pieces) ended) = Some ErrTooLong"
      by simp
    with False show ?thesis
      by (simp add: split_beta)
  qed
qed

lemma readProjectFile_short:
  assumes "\<not> too_long data"
  shows "readProjectFile (Contents data ended) =
           (case ended of Some err \<Rightarrow> Inl err | None \<Rightarrow> Inr (trimmed_nonblank_lines data))"
proof -
  let ?pieces = "strings_Split_LF data"
  let ?lines = "if last ?pieces = [] then butlast ?pieces else ?pieces"
  from assms have "\<forall>piece \<in> set ?pieces. length piece < MaxScanTokenSize"
    by (auto simp: too_long_def)
  with strings_Split_LF_not_Nil
  have scan: "scan_pieces ?pieces ended = (map dropCR ?lines, ended)"
    by (rule scan_pieces_short)
  have lines: "trimmed_nonblank_lines data =
      filter (\<lambda>project. project \<noteq> []) (map strings_TrimSpace (map dropCR ?lines))"
    unfolding trimmed_nonblank_lines_def file_lines_def Let_def ..
  have "readProjectFile (Contents data ended) =
      (case ended of Some err \<Rightarrow> Inl err
       | None \<Rightarrow> Inr (collect_projects [] (map dropCR ?lines)))"
    using scan by (cases ended) (simp_all add: readProjectFile_def)
  then show ?thesis
    unfolding lines collect_projects_filter by (simp only: append_Nil)
qed

lemma readProjectFile_long:
  assumes "too_long data"
  shows "readProjectFile (Contents data ended) = Inl ErrTooLong"
proof -
  from assms have "snd (scan_pieces (strings_Split_LF data) ended) = Some ErrTooLong"
    unfolding too_long_def by (rule scan_pieces_long)
  then obtain tokens where "scan_pieces (strings_Split_LF data) ended = (tokens, Some ErrTooLong)"
    by (cases "scan_pieces (strings_Split_LF data) ended") simp
  then show ?thesis
    by (simp add: readProjectFile_def)
qed

text \<open>
  C9, as amended. For a file that is read to its end and has no line of 65536 bytes or more,
  the reader returns exactly the trimmed lines that are not blank, in the order of the file
  and with duplicates. It returns an error exactly when the file cannot be opened, a read
  fails, or a line has 65536 bytes or more.
\<close>

theorem readProjectFile_lines:
  "(\<not> too_long data \<longrightarrow>
      readProjectFile (Contents data None) = Inr (trimmed_nonblank_lines data)) \<and>
   ((\<exists>err. readProjectFile f = Inl err) \<longleftrightarrow>
      (case f of CannotOpen err \<Rightarrow> True | Contents bytes ended \<Rightarrow> ended \<noteq> None \<or> too_long bytes))"
proof
  show "\<not> too_long data \<longrightarrow>
      readProjectFile (Contents data None) = Inr (trimmed_nonblank_lines data)"
    by (simp add: readProjectFile_short)
next
  show "(\<exists>err. readProjectFile f = Inl err) \<longleftrightarrow>
      (case f of CannotOpen err \<Rightarrow> True | Contents bytes ended \<Rightarrow> ended \<noteq> None \<or> too_long bytes)"
  proof (cases f)
    case (CannotOpen err)
    then show ?thesis by (simp add: readProjectFile_def)
  next
    case (Contents bytes ended)
    show ?thesis
    proof (cases "too_long bytes")
      case True
      with Contents show ?thesis by (simp add: readProjectFile_long)
    next
      case False
      with Contents show ?thesis
        by (cases ended) (simp_all add: readProjectFile_short)
    qed
  qed
qed

lemma sample_project_file_lines:
  "trimmed_nonblank_lines sample_project_file = [''proj-a'', ''proj-b'', ''proj-a'']"
  by code_simp

lemma sample_project_file_short: "\<not> too_long sample_project_file"
  by (simp add: too_long_def sample_project_file_def MaxScanTokenSize_def)

theorem readProjectFile_lines_witness:
  "readProjectFile (Contents sample_project_file None) = Inr [''proj-a'', ''proj-b'', ''proj-a'']"
  using readProjectFile_lines [of sample_project_file] sample_project_file_lines
    sample_project_file_short
  by simp

text \<open>
  The claim as it was stated fails on a file that can be read and holds one line of 65536
  bytes: the scanner stops with \<open>ErrTooLong\<close> and the reader returns that error.
\<close>

lemma strings_Split_LF_replicate:
  "c \<noteq> CHR 0x0A \<Longrightarrow> strings_Split_LF (replicate n c) = [replicate n c]"
  by (induction n) simp_all

lemma too_long_replicate:
  assumes "MaxScanTokenSize \<le> n" and "c \<noteq> CHR 0x0A"
  shows "too_long (replicate n c)"
  unfolding too_long_def strings_Split_LF_replicate [OF assms(2)]
  using assms(1) by simp

theorem readProjectFile_lines_counterexample:
  "readProjectFile (Contents (replicate 65536 CHR ''a'') None) = Inl ErrTooLong"
proof -
  have "MaxScanTokenSize \<le> 65536"
    by (simp add: MaxScanTokenSize_def)
  moreover have "CHR ''a'' \<noteq> CHR 0x0A"
    by simp
  ultimately have "too_long (replicate 65536 CHR ''a'')"
    by (rule too_long_replicate)
  then show ?thesis by (rule readProjectFile_long)
qed

end
